theory Spec2Isabelle
  imports Complex_Main "HOL-Library.AList" "HOL-Library.Sublist"
begin

section \<open>The two scripts\<close>

text \<open>
  The repository holds the grader twice: \<^verbatim>\<open>src/main.js\<close>, and a later revision
  (\<^verbatim>\<open>src/unnamed/part_000\<close>), which adds the pass score and the scoring by the leaves
  of the parsed tree. The later revision is called the grader script below; a
  definition whose name ends in \<open>_main\<close> embeds the function of \<^verbatim>\<open>src/main.js\<close>, every
  other definition embeds the function of the grader script (the two agree where only one
  definition is given). Line numbers are those of the file the definition embeds.
\<close>

section \<open>Strings\<close>

text \<open>
  A JavaScript string is a sequence of UTF-16 code units. A code unit is modelled by its
  number, so that the white space and line terminator characters beyond ASCII
  (which \<^verbatim>\<open>trim\<close>, \<^verbatim>\<open>\s\<close> and \<^verbatim>\<open>.\<close> distinguish) are part of the model.
  \<open>js\<close> embeds an ASCII literal.
\<close>

type_synonym jschar = nat
type_synonym jsstring = "jschar list"

definition js :: "string \<Rightarrow> jsstring" where
  "js s = map of_char s"

text \<open>The line terminators LF, CR, LS and PS: the characters \<^verbatim>\<open>.\<close> does not match.\<close>

definition isLineTerminator :: "jschar \<Rightarrow> bool" where
  "isLineTerminator c = (c = 10 \<or> c = 13 \<or> c = 8232 \<or> c = 8233)"

text \<open>
  The characters matched by \<^verbatim>\<open>\s\<close> and stripped by \<^verbatim>\<open>trim\<close>: TAB, LF, VT, FF, CR,
  SP, NBSP, the space separators U+1680, U+2000..U+200A, U+202F, U+205F, U+3000, the line
  and paragraph separators, and the byte order mark U+FEFF.
\<close>

definition isWhiteSpace :: "jschar \<Rightarrow> bool" where
  "isWhiteSpace c =
     ((9 \<le> c \<and> c \<le> 13) \<or> c = 32 \<or> c = 160 \<or> c = 5760 \<or> (8192 \<le> c \<and> c \<le> 8202)
      \<or> c = 8232 \<or> c = 8233 \<or> c = 8239 \<or> c = 8287 \<or> c = 12288 \<or> c = 65279)"

definition trim :: "jsstring \<Rightarrow> jsstring" where
  "trim s = rev (dropWhile isWhiteSpace (rev (dropWhile isWhiteSpace s)))"

text \<open>\<^verbatim>\<open>s.includes(t)\<close>: \<open>t\<close> occurs in \<open>s\<close> as a contiguous substring.\<close>

fun str_includes :: "jsstring \<Rightarrow> jsstring \<Rightarrow> bool" where
  "str_includes [] t = (t = [])"
| "str_includes (c # s) t = (prefix t (c # s) \<or> str_includes s t)"

section \<open>Process runner\<close>

text \<open>
  \<^verbatim>\<open>execSync\<close> is the external process primitive. What it did is an input of the model:
  either it returned the child's standard output, or it threw an exception object \<open>e\<close>, of
  which the code reads \<^verbatim>\<open>e.stdout\<close> (absent when the primitive attached none) and
  \<^verbatim>\<open>e.message\<close>.
\<close>

datatype exec_outcome =
    Returned jsstring
  | Threw "jsstring option" jsstring

text \<open>The object \<^verbatim>\<open>executeTest\<close> returns; a field that is not set is \<open>None\<close>.\<close>

record exec_result =
  r_output :: "jsstring option"
  r_error :: "jsstring option"

definition timeout_message :: jsstring where
  "timeout_message = js ''Command was killed due to timeout''"

definition normalize_message :: "jsstring \<Rightarrow> jsstring" where
  "normalize_message m = (if str_includes m (js ''ETIMEDOUT'') then timeout_message else m)"

text \<open>\<^verbatim>\<open>executeTest\<close> of the grader script (lines 75--93).\<close>

fun executeTest :: "exec_outcome \<Rightarrow> exec_result" where
  "executeTest (Returned out) = \<lparr>r_output = Some (trim out), r_error = None\<rparr>"
| "executeTest (Threw stdout m) =
     \<lparr>r_output = Some (case stdout of Some b \<Rightarrow> trim b | None \<Rightarrow> []),
      r_error = Some (normalize_message m)\<rparr>"

text \<open>\<^verbatim>\<open>executeTest\<close> of \<^verbatim>\<open>src/main.js\<close> (lines 81--99): the catch branch returns the
  message alone.\<close>

fun executeTest_main :: "exec_outcome \<Rightarrow> exec_result" where
  "executeTest_main (Returned out) = \<lparr>r_output = Some (trim out), r_error = None\<rparr>"
| "executeTest_main (Threw stdout m) = \<lparr>r_output = None, r_error = Some (normalize_message m)\<rparr>"

section \<open>Exceptions\<close>

text \<open>
  A thrown exception is a value: its class and its \<^verbatim>\<open>message\<close>. The texts of the
  \<^verbatim>\<open>TypeError\<close>s are those of the engine (V8).
\<close>

datatype js_error = JsError jsstring | JsTypeError jsstring | JsSyntaxError jsstring

fun message :: "js_error \<Rightarrow> jsstring" where
  "message (JsError m) = m"
| "message (JsTypeError m) = m"
| "message (JsSyntaxError m) = m"

definition try_then :: "js_error + 'a \<Rightarrow> ('a \<Rightarrow> js_error + 'b) \<Rightarrow> js_error + 'b" where
  "try_then r f = (case r of Inl e \<Rightarrow> Inl e | Inr v \<Rightarrow> f v)"

definition cannot_read :: "jsstring \<Rightarrow> js_error" where
  "cannot_read p =
     JsTypeError (js ''Cannot read properties of undefined (reading '' @ [39] @ p @ [39] @ js '')'')"

definition cannot_set :: "jsstring \<Rightarrow> js_error" where
  "cannot_set p =
     JsTypeError (js ''Cannot set properties of undefined (setting '' @ [39] @ p @ [39] @ js '')'')"

section \<open>Hierarchy parser\<close>

text \<open>
  A parsed tree: a boolean leaf, or an object. An object is the list of its own enumerable
  properties in insertion order (JavaScript lists the keys that look like array indices
  first; the counts do not depend on the order). The properties every object inherits from
  \<^verbatim>\<open>Object.prototype\<close> are not part of the model: a path segment that is the name of
  one (\<^verbatim>\<open>constructor\<close>, \<^verbatim>\<open>toString\<close>, \<^verbatim>\<open>__proto__\<close> and the like) is read here as any
  other name.
\<close>

datatype jsval = JBool bool | JObj "(jsstring \<times> jsval) list"

text \<open>Truthiness of the value a property read yields (\<open>None\<close> is \<^verbatim>\<open>undefined\<close>).\<close>

fun truthy :: "jsval option \<Rightarrow> bool" where
  "truthy None = False"
| "truthy (Some (JBool b)) = b"
| "truthy (Some (JObj kvs)) = True"

text \<open>Splitting at every occurrence of one character: \<open>split_on 10\<close> splits into lines.\<close>

fun split_on :: "jschar \<Rightarrow> jsstring \<Rightarrow> jsstring list" where
  "split_on d [] = [[]]"
| "split_on d (c # s) =
     (if c = d then [] # split_on d s
      else (case split_on d s of l # ls \<Rightarrow> (c # l) # ls | [] \<Rightarrow> [[c]]))"

subsection \<open>The line pattern\<close>

text \<open>
  The pattern is a group of one or more characters other than line terminators (greedy),
  one or more white space characters (greedy), and a group that is the word PASSED or the
  word FAILED. The model is the backtracking matcher, specialised to this pattern.
  \<open>token_at\<close> is the second group at the head of the rest. \<open>try_ws j\<close> is the white space
  run: it tries to continue after \<open>j\<close> white space characters, then after fewer, at least
  one. \<open>try_dot k\<close> is the first group: it tries to continue after \<open>k\<close> characters, then
  after fewer, at least one. \<open>regex_match\<close> tries every start position from the left and
  returns the two captured groups of the first match.
\<close>

definition isDot :: "jschar \<Rightarrow> bool" where
  "isDot c = (\<not> isLineTerminator c)"

definition token_at :: "jsstring \<Rightarrow> jsstring option" where
  "token_at s =
     (if prefix (js ''PASSED'') s then Some (js ''PASSED'')
      else if prefix (js ''FAILED'') s then Some (js ''FAILED'')
      else None)"

fun try_ws :: "nat \<Rightarrow> jsstring \<Rightarrow> jsstring option" where
  "try_ws 0 s = None"
| "try_ws (Suc j) s =
     (case token_at (drop (Suc j) s) of Some t \<Rightarrow> Some t | None \<Rightarrow> try_ws j s)"

definition ws_token :: "jsstring \<Rightarrow> jsstring option" where
  "ws_token s = try_ws (length (takeWhile isWhiteSpace s)) s"

fun try_dot :: "nat \<Rightarrow> jsstring \<Rightarrow> (jsstring \<times> jsstring) option" where
  "try_dot 0 s = None"
| "try_dot (Suc k) s =
     (case ws_token (drop (Suc k) s) of
        Some t \<Rightarrow> Some (take (Suc k) s, t)
      | None \<Rightarrow> try_dot k s)"

definition match_here :: "jsstring \<Rightarrow> (jsstring \<times> jsstring) option" where
  "match_here s = try_dot (length (takeWhile isDot s)) s"

fun regex_match :: "jsstring \<Rightarrow> (jsstring \<times> jsstring) option" where
  "regex_match [] = None"
| "regex_match (c # s) =
     (case match_here (c # s) of Some r \<Rightarrow> Some r | None \<Rightarrow> regex_match s)"

subsection \<open>Splitting the captured prefix\<close>

text \<open>
  The separator is one or more white space characters, the character 62 (greater-than),
  and one or more white space characters. \<open>sep_match s\<close> matches it at the head of \<open>s\<close>
  and yields the number of characters it consumes. The first run takes all the white space
  there is: after a shorter run the next character is white space, not the character 62.
  \<open>split_hierarchy seg s\<close> is the split loop: \<open>seg\<close> holds the characters since the end
  of the last separator, \<open>s\<close> is the text from the current position.
\<close>

definition sep_match :: "jsstring \<Rightarrow> nat option" where
  "sep_match s =
     (let w1 = takeWhile isWhiteSpace s; r1 = dropWhile isWhiteSpace s in
      if w1 = [] then None
      else (case r1 of
              [] \<Rightarrow> None
            | c # r2 \<Rightarrow>
                (let w2 = takeWhile isWhiteSpace r2 in
                 if c = 62 \<and> w2 \<noteq> [] then Some (length w1 + 1 + length w2) else None)))"

lemma sep_match_pos: "sep_match s = Some e \<Longrightarrow> 0 < e"
  by (auto simp: sep_match_def Let_def split: if_splits list.splits)

function split_hierarchy :: "jsstring \<Rightarrow> jsstring \<Rightarrow> jsstring list" where
  "split_hierarchy seg [] = [seg]"
| "split_hierarchy seg (c # s) =
     (case sep_match (c # s) of
        Some e \<Rightarrow> seg # split_hierarchy [] (drop e (c # s))
      | None \<Rightarrow> split_hierarchy (seg @ [c]) s)"
  by pat_completeness auto
termination
  by (relation "measure (\<lambda>(seg, s). length s)") (auto dest: sep_match_pos)

subsection \<open>Building the tree\<close>

text \<open>
  \<open>walk cur hierarchy isPassed\<close> is the inner loop over the path, from the value
  \<open>cur\<close> that \<^verbatim>\<open>currentLevel\<close> refers to (\<open>None\<close> is \<^verbatim>\<open>undefined\<close>); it returns that
  value as the loop leaves it, so that the caller stores it back where it was read.
  The script runs in sloppy mode: an assignment to a property of a primitive boolean does
  nothing, a read of one yields \<^verbatim>\<open>undefined\<close>, and both throw on \<^verbatim>\<open>undefined\<close>.
\<close>

fun walk :: "jsval option \<Rightarrow> jsstring list \<Rightarrow> bool \<Rightarrow> js_error + jsval option" where
  "walk cur [] isPassed = Inr cur"
| "walk cur [level] isPassed =
     (case cur of
        None \<Rightarrow> Inl (cannot_set level)
      | Some (JBool b) \<Rightarrow> Inr cur
      | Some (JObj kvs) \<Rightarrow> Inr (Some (JObj (AList.update level (JBool isPassed) kvs))))"
| "walk cur (level # rest) isPassed =
     (case cur of
        None \<Rightarrow> Inl (cannot_read level)
      | Some (JBool b) \<Rightarrow>
          (case walk None rest isPassed of Inl e \<Rightarrow> Inl e | Inr nxt \<Rightarrow> Inr cur)
      | Some (JObj kvs) \<Rightarrow>
          (let kvs' = (if truthy (map_of kvs level) then kvs
                       else AList.update level (JObj []) kvs) in
           case walk (map_of kvs' level) rest isPassed of
             Inl e \<Rightarrow> Inl e
           | Inr None \<Rightarrow> Inr (Some (JObj kvs'))
           | Inr (Some child) \<Rightarrow> Inr (Some (JObj (AList.update level child kvs')))))"

text \<open>The body of the loop over the lines, and the loop.\<close>

definition parse_line :: "jsval \<Rightarrow> jsstring \<Rightarrow> js_error + jsval" where
  "parse_line tests line =
     (case regex_match (trim line) of
        None \<Rightarrow> Inr tests
      | Some (hier, status) \<Rightarrow>
          (case walk (Some tests) (split_hierarchy [] hier) (status = js ''PASSED'') of
             Inl e \<Rightarrow> Inl e
           | Inr None \<Rightarrow> Inr tests
           | Inr (Some tests') \<Rightarrow> Inr tests'))"

fun parse_lines :: "jsval \<Rightarrow> jsstring list \<Rightarrow> js_error + jsval" where
  "parse_lines tests [] = Inr tests"
| "parse_lines tests (line # rest) =
     (case parse_line tests line of Inl e \<Rightarrow> Inl e | Inr tests' \<Rightarrow> parse_lines tests' rest)"

definition parseGradleTestResults :: "jsstring option \<Rightarrow> js_error + jsval" where
  "parseGradleTestResults testResults =
     (case testResults of
        None \<Rightarrow> Inl (cannot_read (js ''split''))
      | Some s \<Rightarrow> parse_lines (JObj []) (split_on 10 s))"

subsection \<open>The shape of a result line\<close>

text \<open>
  The shape the specification gives a recognised line, stated on its own: the line is
  some text \<open>a\<close>, a prefix \<open>p\<close> of one or more characters other than line terminators,
  one or more white space characters \<open>ws\<close>, a word \<open>t\<close> that is PASSED or FAILED, and a
  rest \<open>r\<close>.
\<close>

definition is_token :: "jsstring \<Rightarrow> bool" where
  "is_token t \<longleftrightarrow> t = js ''PASSED'' \<or> t = js ''FAILED''"

definition ws_shape :: "jsstring \<Rightarrow> jsstring \<Rightarrow> jsstring \<Rightarrow> jsstring \<Rightarrow> bool" where
  "ws_shape s ws t r \<longleftrightarrow>
     s = ws @ t @ r \<and> ws \<noteq> [] \<and> list_all isWhiteSpace ws \<and> is_token t"

definition line_shape ::
  "jsstring \<Rightarrow> jsstring \<Rightarrow> jsstring \<Rightarrow> jsstring \<Rightarrow> jsstring \<Rightarrow> jsstring \<Rightarrow> bool" where
  "line_shape s a p ws t r \<longleftrightarrow>
     s = a @ p @ ws @ t @ r \<and> p \<noteq> [] \<and> list_all isDot p \<and> ws_shape (ws @ t @ r) ws t r"

section \<open>Counting the leaves\<close>

text \<open>
  \<^verbatim>\<open>countPassedTests\<close> of the grader script (lines 142--155) walks the properties of a
  node and switches on the type of each value; the two counters are the state.
\<close>

fun countPassedTests :: "(jsstring \<times> jsval) list \<Rightarrow> nat \<times> nat \<Rightarrow> nat \<times> nat" where
  "countPassedTests [] st = st"
| "countPassedTests ((k, JBool b) # rest) (taskCount, taskPassed) =
     countPassedTests rest (taskCount + 1, taskPassed + (if b then 1 else 0))"
| "countPassedTests ((k, JObj kvs) # rest) st =
     countPassedTests rest (countPassedTests kvs st)"

text \<open>
  \<^verbatim>\<open>countPassedTests\<close> of \<^verbatim>\<open>src/main.js\<close> (lines 154--166) switches on the type of the
  key. A key of a \<^verbatim>\<open>for ... in\<close> loop is a string.
\<close>

datatype jstype = TypeString | TypeBoolean | TypeObject

definition typeof_key :: "jsstring \<Rightarrow> jstype" where
  "typeof_key k = TypeString"

fun countPassedTests_main :: "(jsstring \<times> jsval) list \<Rightarrow> nat \<times> nat \<Rightarrow> nat \<times> nat" where
  "countPassedTests_main [] st = st"
| "countPassedTests_main ((k, JBool b) # rest) (taskCount, taskPassed) =
     countPassedTests_main rest
       (case typeof_key k of
          TypeObject \<Rightarrow> (taskCount, taskPassed)
        | TypeBoolean \<Rightarrow> (taskCount + 1, taskPassed + (if b then 1 else 0))
        | TypeString \<Rightarrow> (taskCount, taskPassed))"
| "countPassedTests_main ((k, JObj kvs) # rest) (taskCount, taskPassed) =
     countPassedTests_main rest
       (case typeof_key k of
          TypeObject \<Rightarrow> countPassedTests_main kvs (taskCount, taskPassed)
        | TypeBoolean \<Rightarrow> (taskCount + 1, taskPassed + 1)
        | TypeString \<Rightarrow> (taskCount, taskPassed))"

text \<open>The properties of the root of the tree.\<close>

fun props :: "jsval \<Rightarrow> (jsstring \<times> jsval) list" where
  "props (JObj kvs) = kvs"
| "props (JBool b) = []"

section \<open>Numbers\<close>

text \<open>
  A JavaScript number is an IEEE 754 binary64 value: a finite value (the real number it
  denotes), an infinity, or NaN. The two zeros are not told apart: the program never
  divides by a computed zero, and comparison and \<^verbatim>\<open>===\<close> treat them alike.
  \<open>round64\<close> rounds a real number to the nearest binary64 value, ties to even, with
  gradual underflow and overflow to infinity.
\<close>

datatype jsnum = Num real | PosInf | NegInf | NaN

definition pow2 :: "int \<Rightarrow> real" where
  "pow2 e = (if 0 \<le> e then 2 ^ nat e else 1 / 2 ^ nat (- e))"

function ilog2 :: "int \<Rightarrow> int" where
  "ilog2 n = (if n < 2 then 0 else ilog2 (n div 2) + 1)"
  by auto
termination
  by (relation "measure nat") auto

declare ilog2.simps [simp del]

text \<open>For \<open>0 < x\<close>, the exponent \<open>e\<close> with \<open>2\<^sup>e \<le> x < 2\<^sup>e\<^sup>+\<^sup>1\<close>.\<close>

definition floor_log2 :: "real \<Rightarrow> int" where
  "floor_log2 x =
     (if 1 \<le> x then ilog2 \<lfloor>x\<rfloor>
      else (let n = \<lceil>1 / x\<rceil> in if n < 2 then 0 else - (ilog2 (n - 1) + 1)))"

definition round_half_even :: "real \<Rightarrow> int" where
  "round_half_even x =
     (let f = \<lfloor>x\<rfloor>; d = x - of_int f in
      if d < 1 / 2 then f else if 1 / 2 < d then f + 1 else if even f then f else f + 1)"

definition round64 :: "real \<Rightarrow> jsnum" where
  "round64 x =
     (if x = 0 then Num 0
      else
        (let e = max (floor_log2 \<bar>x\<bar>) (- 1022);
             q = pow2 (e - 52);
             y = of_int (round_half_even (x / q)) * q
         in if pow2 1024 \<le> \<bar>y\<bar> then (if 0 < x then PosInf else NegInf) else Num y))"

fun js_sgn :: "jsnum \<Rightarrow> int" where
  "js_sgn (Num a) = (if 0 < a then 1 else if a < 0 then - 1 else 0)"
| "js_sgn PosInf = 1"
| "js_sgn NegInf = - 1"
| "js_sgn NaN = 0"

definition inf_of_sign :: "int \<Rightarrow> jsnum" where
  "inf_of_sign s = (if s = 0 then NaN else if 0 < s then PosInf else NegInf)"

text \<open>The operators \<^verbatim>\<open>*\<close>, \<^verbatim>\<open>/\<close>, \<^verbatim>\<open><\<close> and \<^verbatim>\<open>===\<close> on numbers.\<close>

fun js_times :: "jsnum \<Rightarrow> jsnum \<Rightarrow> jsnum" where
  "js_times NaN y = NaN"
| "js_times x NaN = NaN"
| "js_times (Num a) (Num b) = round64 (a * b)"
| "js_times x y = inf_of_sign (js_sgn x * js_sgn y)"

fun js_divide :: "jsnum \<Rightarrow> jsnum \<Rightarrow> jsnum" where
  "js_divide NaN y = NaN"
| "js_divide x NaN = NaN"
| "js_divide (Num a) (Num b) =
     (if b = 0 then inf_of_sign (js_sgn (Num a)) else round64 (a / b))"
| "js_divide (Num a) y = Num 0"
| "js_divide x (Num b) = inf_of_sign (js_sgn x * (if b < 0 then - 1 else 1))"
| "js_divide x y = NaN"

fun js_less :: "jsnum \<Rightarrow> jsnum \<Rightarrow> bool" where
  "js_less NaN y = False"
| "js_less x NaN = False"
| "js_less (Num a) (Num b) = (a < b)"
| "js_less x NegInf = False"
| "js_less PosInf y = False"
| "js_less x y = True"

definition js_strict_equals :: "jsnum \<Rightarrow> jsnum \<Rightarrow> bool" where
  "js_strict_equals x y = (x \<noteq> NaN \<and> x = y)"

text \<open>A counter (an integer below \<open>2\<^sup>5\<^sup>3\<close>) as a number, and the literal \<^verbatim>\<open>0.8\<close>.\<close>

definition of_count :: "nat \<Rightarrow> jsnum" where
  "of_count n = Num (real n)"

definition point8 :: jsnum where
  "point8 = round64 (4 / 5)"

subsection \<open>\<^verbatim>\<open>parseInt\<close>\<close>

text \<open>
  \<^verbatim>\<open>parseInt\<close> with no radix: leading white space is skipped, then an optional sign, then
  an optional hexadecimal prefix, then the longest run of digits of the radix; no digit
  gives NaN.
\<close>

definition digit_value :: "jschar \<Rightarrow> nat option" where
  "digit_value c =
     (if 48 \<le> c \<and> c \<le> 57 then Some (c - 48)
      else if 97 \<le> c \<and> c \<le> 122 then Some (c - 87)
      else if 65 \<le> c \<and> c \<le> 90 then Some (c - 55)
      else None)"

definition is_digit :: "nat \<Rightarrow> jschar \<Rightarrow> bool" where
  "is_digit R c = (case digit_value c of Some d \<Rightarrow> d < R | None \<Rightarrow> False)"

definition digits_value :: "nat \<Rightarrow> jsstring \<Rightarrow> nat" where
  "digits_value R z =
     foldl (\<lambda>acc c. acc * R + (case digit_value c of Some d \<Rightarrow> d | None \<Rightarrow> 0)) 0 z"

definition parseInt :: "jsstring \<Rightarrow> jsnum" where
  "parseInt s =
     (let s1 = dropWhile isWhiteSpace s;
          neg = (case s1 of [] \<Rightarrow> False | c # r \<Rightarrow> c = 45);
          s2 = (case s1 of [] \<Rightarrow> [] | c # r \<Rightarrow> if c = 43 \<or> c = 45 then r else s1);
          hex = (prefix (js ''0x'') s2 \<or> prefix (js ''0X'') s2);
          R = (if hex then 16 else 10);
          s3 = (if hex then drop 2 s2 else s2);
          z = takeWhile (is_digit R) s3
      in if z = [] then NaN
         else round64 ((if neg then - 1 else 1) * real (digits_value R z)))"

text \<open>\<^verbatim>\<open>parseInt(v || 0)\<close> for a string \<open>v\<close>: the empty string is falsy, and
  \<^verbatim>\<open>parseInt(0)\<close> is 0.\<close>

definition parseInt_or_0 :: "jsstring \<Rightarrow> jsnum" where
  "parseInt_or_0 v = (if v = [] then Num 0 else parseInt v)"

section \<open>Configuration\<close>

text \<open>
  Everything outside the script is an input of the model: what \<^verbatim>\<open>core.getInput\<close> yields
  for a name (with the \<^verbatim>\<open>required\<close> flag of the call), what the two calls of
  \<^verbatim>\<open>execSync\<close> did, what \<^verbatim>\<open>new RegExp\<close> makes of a pattern (a syntax error, or the test the
  compiled expression performs), and the time between the two clock readings.
\<close>

record world =
  getInput :: "jsstring \<Rightarrow> bool \<Rightarrow> js_error + jsstring"
  setup_exec :: exec_outcome
  test_exec :: exec_outcome
  new_RegExp :: "jsstring \<Rightarrow> js_error + (jsstring \<Rightarrow> bool)"
  elapsed_ms :: int

text \<open>The exceptions of the external primitives carry a message that is not empty.\<close>

definition loud_world :: "world \<Rightarrow> bool" where
  "loud_world w \<longleftrightarrow>
     (\<forall>n r e. getInput w n r = Inl e \<longrightarrow> message e \<noteq> [])
     \<and> (\<forall>out m. setup_exec w = Threw out m \<longrightarrow> m \<noteq> [])
     \<and> (\<forall>p e. new_RegExp w p = Inl e \<longrightarrow> message e \<noteq> [])"

text \<open>
  The object \<^verbatim>\<open>getInputs\<close> returns: the one of \<^verbatim>\<open>src/main.js\<close>, and the one of the
  grader script, which adds \<^verbatim>\<open>passScore\<close>. The timeout is kept as read: only
  \<^verbatim>\<open>execSync\<close> consumes it.
\<close>

record inputs_main =
  testName :: jsstring
  setupCommand :: jsstring
  command :: jsstring
  stdin :: jsstring
  expectedOutput :: jsstring
  comparisonMethod :: jsstring
  timeout :: jsstring
  maxScore :: jsnum

record inputs = inputs_main +
  passScore :: jsnum

definition comparison_methods :: "jsstring list" where
  "comparison_methods = [js ''exact'', js ''contains'', js ''regex'']"

definition invalid_method :: "jsstring \<Rightarrow> js_error" where
  "invalid_method m = JsError (js ''Invalid comparison method: '' @ m)"

text \<open>\<^verbatim>\<open>getInputs\<close> of the grader script (lines 12--43).\<close>

definition getInputs :: "world \<Rightarrow> js_error + inputs" where
  "getInputs w =
     try_then (getInput w (js ''test-name'') True) (\<lambda>testName'.
     try_then (getInput w (js ''setup-command'') False) (\<lambda>setupCommand'.
     try_then (getInput w (js ''command'') True) (\<lambda>command'.
     try_then (getInput w (js ''input'') False) (\<lambda>input'.
     try_then (getInput w (js ''expected-output'') False) (\<lambda>expectedOutput'.
     try_then (getInput w (js ''comparison-method'') False) (\<lambda>comparisonMethod'.
     try_then (getInput w (js ''timeout'') False) (\<lambda>timeout'.
     try_then (getInput w (js ''pass-score'') False) (\<lambda>passScore'.
     try_then (getInput w (js ''max-score'') False) (\<lambda>maxScore'.
       let passScore0 = parseInt_or_0 passScore'; maxScore0 = parseInt_or_0 maxScore' in
       if comparisonMethod' \<noteq> [] \<and> comparisonMethod' \<notin> set comparison_methods
       then Inl (invalid_method comparisonMethod')
       else Inr \<lparr>testName = testName', setupCommand = setupCommand', command = command',
                 stdin = trim input', expectedOutput = expectedOutput',
                 comparisonMethod = comparisonMethod', timeout = timeout',
                 maxScore = maxScore0,
                 passScore = (if js_less (Num 0) passScore0 then passScore0
                              else js_times maxScore0 point8)\<rparr>)))))))))"

text \<open>\<^verbatim>\<open>getInputs\<close> of \<^verbatim>\<open>src/main.js\<close> (lines 12--49).\<close>

definition getInputs_main :: "world \<Rightarrow> js_error + inputs_main" where
  "getInputs_main w =
     try_then (getInput w (js ''test-name'') True) (\<lambda>testName'.
     try_then (getInput w (js ''setup-command'') False) (\<lambda>setupCommand'.
     try_then (getInput w (js ''command'') True) (\<lambda>command'.
     try_then (getInput w (js ''input'') False) (\<lambda>input'.
     try_then (getInput w (js ''expected-output'') True) (\<lambda>expectedOutput'.
     try_then (getInput w (js ''comparison-method'') True) (\<lambda>comparisonMethod'.
     try_then (getInput w (js ''timeout'') False) (\<lambda>timeout'.
     try_then (getInput w (js ''max-score'') False) (\<lambda>maxScore'.
       if comparisonMethod' \<notin> set comparison_methods
       then Inl (invalid_method comparisonMethod')
       else if testName' = [] \<or> command' = [] \<or> expectedOutput' = [] \<or> comparisonMethod' = []
       then Inl (JsError (js ''Required inputs are missing or invalid''))
       else Inr \<lparr>testName = testName', setupCommand = setupCommand', command = command',
                 stdin = trim input', expectedOutput = expectedOutput',
                 comparisonMethod = comparisonMethod', timeout = timeout',
                 maxScore = parseInt_or_0 maxScore'\<rparr>))))))))"

section \<open>Comparator\<close>

text \<open>
  \<^verbatim>\<open>compareOutput\<close>; the output is \<open>None\<close> when it is \<^verbatim>\<open>undefined\<close>, which the regular
  expression test reads as the text "undefined".
\<close>

definition compareOutput ::
  "world \<Rightarrow> jsstring option \<Rightarrow> jsstring \<Rightarrow> jsstring \<Rightarrow> js_error + bool" where
  "compareOutput w out expected meth =
     (if meth = js ''exact'' then Inr (out = Some expected)
      else if meth = js ''contains'' then
        (case out of
           None \<Rightarrow> Inl (cannot_read (js ''includes''))
         | Some s \<Rightarrow> Inr (str_includes s expected))
      else if meth = js ''regex'' then
        try_then (new_RegExp w expected) (\<lambda>regex.
          Inr (regex (case out of None \<Rightarrow> js ''undefined'' | Some s \<Rightarrow> s)))
      else Inl (invalid_method meth))"

section \<open>Grading orchestrator\<close>

datatype status = StatusPass | StatusFail | StatusError

text \<open>
  The variables that \<^verbatim>\<open>run\<close> declares and the scoring updates: those of
  \<^verbatim>\<open>src/main.js\<close>, and those of the grader script, which adds \<^verbatim>\<open>passScore\<close>.
\<close>

record verdict_main =
  v_status :: status
  v_message :: "jsstring option"
  v_maxScore :: jsnum
  v_score :: jsnum

record verdict = verdict_main +
  v_passScore :: jsnum

text \<open>The time a report shows: the elapsed seconds as text, or the number 0.\<close>

datatype exec_time = Elapsed_ms int | Zero_time

record test_report =
  t_name :: jsstring
  t_status :: status
  t_message :: "jsstring option"
  test_code :: jsstring
  filename :: jsstring
  line_no :: nat
  execution_time :: exec_time
  t_score :: "jsnum option"

record envelope =
  version :: nat
  e_status :: status
  max_score :: "jsnum option"
  tests :: "test_report list"

definition code_of :: "jsstring \<Rightarrow> jsstring \<Rightarrow> jsstring" where
  "code_of cmd inp = cmd @ js '' <stdin>'' @ inp"

text \<open>The result object of the try block (lines 188--204).\<close>

definition result_envelope ::
  "'a inputs_main_scheme \<Rightarrow> int \<Rightarrow> 'b verdict_main_scheme \<Rightarrow> envelope" where
  "result_envelope i ms v =
     \<lparr>version = 1, e_status = v_status v, max_score = Some (v_maxScore v),
      tests = [\<lparr>t_name = testName i, t_status = v_status v, t_message = v_message v,
                test_code = code_of (command i) (stdin i), filename = [], line_no = 0,
                execution_time = Elapsed_ms ms, t_score = Some (v_score v)\<rparr>]\<rparr>"

text \<open>
  The result object of the catch block (lines 209--223); \<open>None\<close> is the empty object that
  \<^verbatim>\<open>inputs\<close> holds until \<^verbatim>\<open>getInputs\<close> has returned.
\<close>

definition or_else :: "jsstring \<Rightarrow> jsstring \<Rightarrow> jsstring" where
  "or_else s d = (if s = [] then d else s)"

definition catch_envelope :: "'a inputs_main_scheme option \<Rightarrow> js_error \<Rightarrow> envelope" where
  "catch_envelope i e =
     \<lparr>version = 1, e_status = StatusError, max_score = None,
      tests = [\<lparr>t_name = (case i of None \<Rightarrow> js ''Unknown Test''
                              | Some i' \<Rightarrow> or_else (testName i') (js ''Unknown Test'')),
                t_status = StatusError, t_message = Some (message e),
                test_code = code_of (case i of None \<Rightarrow> js ''Unknown Command''
                                     | Some i' \<Rightarrow> or_else (command i') (js ''Unknown Command''))
                                    (case i of None \<Rightarrow> [] | Some i' \<Rightarrow> stdin i'),
                filename = [], line_no = 0, execution_time = Zero_time, t_score = None\<rparr>]\<rparr>"

text \<open>The setup command (lines 116--122): run when configured; its failure is thrown.\<close>

definition run_setup :: "world \<Rightarrow> jsstring \<Rightarrow> js_error + unit" where
  "run_setup w setupCommand' =
     (if setupCommand' = [] then Inr ()
      else (case setup_exec w of Returned out \<Rightarrow> Inr () | Threw out m \<Rightarrow> Inl (JsError m)))"

text \<open>The variables as lines 130--134 initialise them.\<close>

definition initial_verdict :: "inputs \<Rightarrow> verdict" where
  "initial_verdict i =
     \<lparr>v_status = StatusPass, v_message = None, v_maxScore = maxScore i,
      v_score = maxScore i, v_passScore = passScore i\<rparr>"

text \<open>The branch for a tree with leaves (lines 159--173).\<close>

definition hierarchy_scoring :: "inputs \<Rightarrow> nat \<Rightarrow> nat \<Rightarrow> verdict" where
  "hierarchy_scoring i taskCount taskPassed =
     (let v0 = initial_verdict i;
          v1 = (if js_strict_equals (v_maxScore v0) (Num 0)
                then v0\<lparr>v_maxScore := of_count taskCount,
                        v_passScore := js_times (of_count taskCount) point8,
                        v_score := of_count taskPassed\<rparr>
                else v0\<lparr>v_score :=
                          js_times (js_divide (of_count taskPassed) (of_count taskCount))
                            (v_maxScore v0)\<rparr>)
      in if js_less (v_score v1) (v_passScore v1)
         then v1\<lparr>v_status := StatusFail, v_message := Some (js ''You need earn more score.'')\<rparr>
         else v1)"

text \<open>The branch for a tree without leaves (lines 174--186).\<close>

definition mismatch_message :: "jsstring \<Rightarrow> jsstring option \<Rightarrow> jsstring" where
  "mismatch_message expected out =
     js ''Output does not match expected: '' @ expected @ js '' Got: ''
       @ (case out of None \<Rightarrow> js ''undefined'' | Some s \<Rightarrow> s)"

definition truthy_error :: "jsstring option \<Rightarrow> bool" where
  "truthy_error e = (case e of None \<Rightarrow> False | Some m \<Rightarrow> m \<noteq> [])"

definition io_fallback :: "world \<Rightarrow> inputs \<Rightarrow> exec_result \<Rightarrow> js_error + verdict" where
  "io_fallback w i r =
     (let v0 = initial_verdict i in
      if truthy_error (r_error r)
      then Inr (v0\<lparr>v_status := StatusError, v_message := r_error r, v_score := Num 0\<rparr>)
      else try_then (compareOutput w (r_output r) (expectedOutput i) (comparisonMethod i))
             (\<lambda>same.
                if \<not> same
                then Inr (v0\<lparr>v_status := StatusFail,
                              v_message := Some (mismatch_message (expectedOutput i) (r_output r)),
                              v_score := Num 0\<rparr>)
                else Inr v0))"

text \<open>The try block of \<^verbatim>\<open>run\<close> in the grader script (lines 114--207).\<close>

definition run_try :: "world \<Rightarrow> js_error + envelope" where
  "run_try w =
     try_then (getInputs w) (\<lambda>i.
     try_then (run_setup w (setupCommand i)) (\<lambda>u.
       let r = executeTest (test_exec w) in
       try_then (parseGradleTestResults (r_output r)) (\<lambda>parsedResults.
         let (taskCount, taskPassed) = countPassedTests (props parsedResults) (0, 0) in
         try_then (if 0 < taskCount then Inr (hierarchy_scoring i taskCount taskPassed)
                   else io_fallback w i r)
           (\<lambda>v. Inr (result_envelope i (elapsed_ms w) v)))))"

text \<open>
  \<^verbatim>\<open>run\<close>: the list of the values handed to \<^verbatim>\<open>core.setOutput\<close>, before their encoding.
\<close>

definition run :: "world \<Rightarrow> envelope list" where
  "run w =
     (case run_try w of
        Inr res \<Rightarrow> [res]
      | Inl e \<Rightarrow>
          [catch_envelope (case getInputs w of Inl e' \<Rightarrow> None | Inr i \<Rightarrow> Some i) e])"

subsection \<open>The orchestrator of \<^verbatim>\<open>src/main.js\<close>\<close>

definition initial_verdict_main :: "inputs_main \<Rightarrow> verdict_main" where
  "initial_verdict_main i =
     \<lparr>v_status = StatusPass, v_message = None, v_maxScore = maxScore i,
      v_score = maxScore i\<rparr>"

text \<open>Lines 148--177: the tree is parsed and counted once the outputs agree.\<close>

definition score_main :: "inputs_main \<Rightarrow> jsval \<Rightarrow> verdict_main" where
  "score_main i parsedResults =
     (let v0 = initial_verdict_main i;
          (taskCount, taskPassed) = countPassedTests_main (props parsedResults) (0, 0)
      in if taskCount = 0
         then (if js_strict_equals (v_maxScore v0) (Num 0)
               then v0\<lparr>v_maxScore := of_count taskCount, v_score := of_count taskPassed\<rparr>
               else v0\<lparr>v_score := js_divide (of_count taskPassed) (of_count taskCount)\<rparr>)
         else v0)"

definition run_try_main :: "world \<Rightarrow> js_error + envelope" where
  "run_try_main w =
     try_then (getInputs_main w) (\<lambda>i.
     try_then (run_setup w (setupCommand i)) (\<lambda>u.
       let r = executeTest_main (test_exec w); v0 = initial_verdict_main i in
       try_then
         (if truthy_error (r_error r)
          then Inr (v0\<lparr>v_status := StatusError, v_message := r_error r, v_score := Num 0\<rparr>)
          else try_then (compareOutput w (r_output r) (expectedOutput i) (comparisonMethod i))
                 (\<lambda>same.
                    if \<not> same
                    then Inr (v0\<lparr>v_status := StatusFail,
                                  v_message := Some (mismatch_message (expectedOutput i) (r_output r)),
                                  v_score := Num 0\<rparr>)
                    else try_then (parseGradleTestResults (r_output r))
                           (\<lambda>parsedResults. Inr (score_main i parsedResults))))
         (\<lambda>v. Inr (result_envelope i (elapsed_ms w) v))))"

definition run_main :: "world \<Rightarrow> envelope list" where
  "run_main w =
     (case run_try_main w of
        Inr res \<Rightarrow> [res]
      | Inl e \<Rightarrow>
          [catch_envelope (case getInputs_main w of Inl e' \<Rightarrow> None | Inr i \<Rightarrow> Some i) e])"

section \<open>Example runs\<close>

text \<open>
  The library function \<^verbatim>\<open>core.getInput\<close> over a table of the configured inputs, for
  the example runs: an input that is not set reads as the empty string, a required input
  that is empty is refused, and the value is returned trimmed.
\<close>

definition core_getInput ::
  "(jsstring \<times> jsstring) list \<Rightarrow> jsstring \<Rightarrow> bool \<Rightarrow> js_error + jsstring" where
  "core_getInput env n required =
     (let v = (case map_of env n of None \<Rightarrow> [] | Some x \<Rightarrow> x) in
      if required \<and> v = [] then Inl (JsError (js ''Input required and not supplied: '' @ n))
      else Inr (trim v))"

text \<open>
  An example run: the configured inputs, what the test command did, no setup command,
  a regular expression engine that accepts no pattern, and 1200 ms on the clock.
\<close>

definition example_world :: "(jsstring \<times> jsstring) list \<Rightarrow> exec_outcome \<Rightarrow> world" where
  "example_world env t =
     \<lparr>getInput = core_getInput env, setup_exec = Returned [], test_exec = t,
      new_RegExp = (\<lambda>p. Inl (JsSyntaxError (js ''Invalid regular expression''))),
      elapsed_ms = 1200\<rparr>"

definition lines :: "jsstring list \<Rightarrow> jsstring" where
  "lines ls = concat (map (\<lambda>l. l @ [10]) ls)"

definition basic_env :: "(jsstring \<times> jsstring) list" where
  "basic_env = [(js ''test-name'', js ''t''), (js ''command'', js ''gradle test'')]"

definition basic_inputs :: inputs where
  "basic_inputs =
     \<lparr>testName = js ''t'', setupCommand = [], command = js ''gradle test'', stdin = [],
      expectedOutput = [], comparisonMethod = [], timeout = [], maxScore = Num 0,
      passScore = Num 0\<rparr>"

definition ten_results :: jsstring where
  "ten_results = lines [js ''S > a PASSED'', js ''S > b PASSED'', js ''S > c PASSED'',
     js ''S > d PASSED'', js ''S > e PASSED'', js ''S > f PASSED'', js ''S > g PASSED'',
     js ''S > h FAILED'', js ''S > i FAILED'', js ''S > j FAILED'']"

definition ten_tree :: jsval where
  "ten_tree = JObj [(js ''S'', JObj [(js ''a'', JBool True), (js ''b'', JBool True),
     (js ''c'', JBool True), (js ''d'', JBool True), (js ''e'', JBool True),
     (js ''f'', JBool True), (js ''g'', JBool True), (js ''h'', JBool False),
     (js ''i'', JBool False), (js ''j'', JBool False)])]"

definition negative_env :: "(jsstring \<times> jsstring) list" where
  "negative_env = [(js ''test-name'', js ''t''), (js ''command'', js ''gradle test''),
                   (js ''max-score'', js ''-5'')]"

definition negative_inputs :: inputs where
  "negative_inputs =
     \<lparr>testName = js ''t'', setupCommand = [], command = js ''gradle test'', stdin = [],
      expectedOutput = [], comparisonMethod = [], timeout = [], maxScore = Num (- 5),
      passScore = Num (- 4)\<rparr>"

definition eight_results :: jsstring where
  "eight_results = lines [js ''S > a PASSED'', js ''S > b PASSED'', js ''S > c PASSED'',
     js ''S > d PASSED'', js ''S > e PASSED'', js ''S > f PASSED'', js ''S > g PASSED'',
     js ''S > h PASSED'', js ''S > i FAILED'', js ''S > j FAILED'']"

definition eight_tree :: jsval where
  "eight_tree = JObj [(js ''S'', JObj [(js ''a'', JBool True), (js ''b'', JBool True),
     (js ''c'', JBool True), (js ''d'', JBool True), (js ''e'', JBool True),
     (js ''f'', JBool True), (js ''g'', JBool True), (js ''h'', JBool True),
     (js ''i'', JBool False), (js ''j'', JBool False)])]"

definition weighted_env :: "(jsstring \<times> jsstring) list" where
  "weighted_env = [(js ''test-name'', js ''t''), (js ''command'', js ''gradle test''),
                   (js ''max-score'', js ''50'')]"

definition weighted_inputs :: inputs where
  "weighted_inputs =
     \<lparr>testName = js ''t'', setupCommand = [], command = js ''gradle test'', stdin = [],
      expectedOutput = [], comparisonMethod = [], timeout = [], maxScore = Num 50,
      passScore = Num 40\<rparr>"

definition compare_env :: "(jsstring \<times> jsstring) list" where
  "compare_env = [(js ''test-name'', js ''t''), (js ''command'', js ''./run''),
                  (js ''expected-output'', js ''hello''), (js ''comparison-method'', js ''exact'')]"

definition compare_inputs :: inputs where
  "compare_inputs =
     \<lparr>testName = js ''t'', setupCommand = [], command = js ''./run'', stdin = [],
      expectedOutput = js ''hello'', comparisonMethod = js ''exact'', timeout = [],
      maxScore = Num 0, passScore = Num 0\<rparr>"

definition main_env :: "(jsstring \<times> jsstring) list" where
  "main_env = [(js ''test-name'', js ''t''), (js ''command'', js ''gradle test''),
               (js ''expected-output'', js ''A PASSED''), (js ''comparison-method'', js ''exact''),
               (js ''max-score'', js ''50'')]"

definition main_inputs :: inputs_main where
  "main_inputs =
     \<lparr>testName = js ''t'', setupCommand = [], command = js ''gradle test'', stdin = [],
      expectedOutput = js ''A PASSED'', comparisonMethod = js ''exact'', timeout = [],
      maxScore = Num 50\<rparr>"

definition included_env :: "(jsstring \<times> jsstring) list" where
  "included_env = [(js ''test-name'', js ''t''), (js ''command'', js ''./run''),
                   (js ''expected-output'', js ''hello''),
                   (js ''comparison-method'', js ''included'')]"

section \<open>Sequencing of results\<close>

lemma try_then_simps [simp]:
  "try_then (Inr v) f = f v"
  "try_then (Inl e) f = Inl e"
  by (simp_all add: try_then_def)

lemma try_then_eq_Inr: "try_then r f = Inr y \<longleftrightarrow> (\<exists>v. r = Inr v \<and> f v = Inr y)"
  by (cases r) simp_all

lemma try_then_eq_Inl:
  "try_then r f = Inl e \<longleftrightarrow> r = Inl e \<or> (\<exists>v. r = Inr v \<and> f v = Inl e)"
  by (cases r) auto

section \<open>Evaluation of the examples\<close>

lemmas string_eval = js_def trim_def isWhiteSpace_def isLineTerminator_def isDot_def

lemmas parse_eval = parseGradleTestResults_def parse_line_def match_here_def ws_token_def
  token_at_def sep_match_def lines_def

lemmas number_eval = round64_def floor_log2_def ilog2.simps pow2_def round_half_even_def Let_def
  point8_def of_count_def

lemmas config_eval = getInputs_def example_world_def core_getInput_def parseInt_or_0_def
  parseInt_def digits_value_def is_digit_def digit_value_def comparison_methods_def

lemma point8_value: "point8 = Num (3602879701896397 / 4503599627370496)"
  by (simp add: number_eval)

lemma ten_parse: "parseGradleTestResults (Some (trim ten_results)) = Inr ten_tree"
  by (simp add: ten_results_def ten_tree_def parse_eval string_eval)

lemma ten_count: "countPassedTests (props ten_tree) (0, 0) = (10, 7)"
  by (simp add: ten_tree_def)

lemma eight_parse: "parseGradleTestResults (Some (trim eight_results)) = Inr eight_tree"
  by (simp add: eight_results_def eight_tree_def parse_eval string_eval)

lemma eight_count: "countPassedTests (props eight_tree) (0, 0) = (10, 8)"
  by (simp add: eight_tree_def)

lemma one_parse:
  "parseGradleTestResults (Some (trim (js ''A PASSED''))) = Inr (JObj [(js ''A'', JBool True)])"
  by (simp add: parse_eval string_eval)

lemma hello_parse: "parseGradleTestResults (Some (trim (js ''hello''))) = Inr (JObj [])"
  by (simp add: parse_eval string_eval)

lemma lazy_inputs:
  "getInputs (example_world basic_env t) =
     Inr \<lparr>testName = js ''t'', setupCommand = [], command = js ''gradle test'', stdin = [],
          expectedOutput = [], comparisonMethod = [], timeout = [], maxScore = Num 0,
          passScore = Num 0\<rparr>"
  by (simp add: config_eval basic_env_def string_eval number_eval)

lemma negative_getInputs: "getInputs (example_world negative_env t) = Inr negative_inputs"
  by (simp add: config_eval negative_env_def negative_inputs_def string_eval number_eval)

lemma weighted_getInputs: "getInputs (example_world weighted_env t) = Inr weighted_inputs"
  by (simp add: config_eval weighted_env_def weighted_inputs_def string_eval number_eval)

lemma compare_getInputs: "getInputs (example_world compare_env t) = Inr compare_inputs"
  by (simp add: config_eval compare_env_def compare_inputs_def string_eval number_eval)

section \<open>Properties of the number model\<close>

text \<open>
  The exponent is the one of the binade, a rounded value is within half a unit in the last
  place of the number it rounds, and the products and quotients that JavaScript is known
  for come out as they do there.
\<close>

lemma ilog2_nonneg: "0 \<le> ilog2 n"
proof (induction n rule: ilog2.induct)
  case (1 n)
  show ?case
  proof (cases "n < 2")
    case True
    then show ?thesis by (simp add: ilog2.simps)
  next
    case False
    with 1 have "0 \<le> ilog2 (n div 2)" by simp
    with False show ?thesis by (subst ilog2.simps) simp
  qed
qed

lemma ilog2_bounds:
  "1 \<le> n \<Longrightarrow> 2 ^ nat (ilog2 n) \<le> n \<and> n < 2 ^ nat (ilog2 n + 1)"
proof (induction n rule: ilog2.induct)
  case (1 n)
  show ?case
  proof (cases "n < 2")
    case True
    with 1(2) have "n = 1" by simp
    then show ?thesis by (simp add: ilog2.simps)
  next
    case False
    then have h: "1 \<le> n div 2" by simp
    from 1(1) [OF False h]
    have ih: "2 ^ nat (ilog2 (n div 2)) \<le> n div 2" "n div 2 < 2 ^ nat (ilog2 (n div 2) + 1)"
      by simp_all
    have e: "ilog2 n = ilog2 (n div 2) + 1"
      using False by (subst ilog2.simps) simp
    have n1: "nat (ilog2 (n div 2) + 1) = Suc (nat (ilog2 (n div 2)))"
      using ilog2_nonneg [of "n div 2"] by simp
    have m1: "nat (ilog2 n) = Suc (nat (ilog2 (n div 2)))"
      using ilog2_nonneg [of "n div 2"] by (simp add: e)
    have m2: "nat (ilog2 n + 1) = Suc (Suc (nat (ilog2 (n div 2))))"
      using ilog2_nonneg [of "n div 2"] by (simp add: e)
    from ih(1) have a: "2 * 2 ^ nat (ilog2 (n div 2)) \<le> n" by linarith
    from ih(2) n1 have "n div 2 < 2 * 2 ^ nat (ilog2 (n div 2))" by simp
    then have b: "n < 2 * (2 * 2 ^ nat (ilog2 (n div 2)))" by linarith
    show ?thesis using a b by (simp only: m1 m2 power_Suc)
  qed
qed

lemma pow2_of_nat: "0 \<le> e \<Longrightarrow> pow2 e = 2 ^ nat e"
  by (simp add: pow2_def)

lemma pow2_neg: "0 \<le> k \<Longrightarrow> pow2 (- k) = 1 / 2 ^ nat k"
  by (cases "k = 0") (simp_all add: pow2_def)

lemma pow2_pos: "0 < pow2 e"
  by (simp add: pow2_def)

lemma pow2_Suc: "pow2 (e + 1) = 2 * pow2 e"
proof (cases "0 \<le> e")
  case True
  then have "nat (e + 1) = Suc (nat e)" by simp
  with True show ?thesis by (simp add: pow2_def)
next
  case False
  then have "nat (- e) = Suc (nat (- (e + 1)))" by simp
  with False show ?thesis by (simp add: pow2_def)
qed

lemma floor_log2_bounds:
  assumes "0 < x"
  shows "pow2 (floor_log2 x) \<le> x \<and> x < pow2 (floor_log2 x + 1)"
proof (cases "1 \<le> x")
  case True
  then have f: "1 \<le> \<lfloor>x\<rfloor>" by simp
  from ilog2_bounds [OF f]
  have b: "2 ^ nat (ilog2 \<lfloor>x\<rfloor>) \<le> \<lfloor>x\<rfloor>" "\<lfloor>x\<rfloor> < 2 ^ nat (ilog2 \<lfloor>x\<rfloor> + 1)"
    by simp_all
  have e: "floor_log2 x = ilog2 \<lfloor>x\<rfloor>"
    using True by (simp add: floor_log2_def)
  have "real_of_int (2 ^ nat (ilog2 \<lfloor>x\<rfloor>)) \<le> real_of_int \<lfloor>x\<rfloor>"
    using b(1) by (simp only: of_int_le_iff)
  then have lo: "2 ^ nat (ilog2 \<lfloor>x\<rfloor>) \<le> x"
    by (simp add: le_floor_iff)
  from b(2) have "\<lfloor>x\<rfloor> + 1 \<le> 2 ^ nat (ilog2 \<lfloor>x\<rfloor> + 1)" by simp
  then have "real_of_int (\<lfloor>x\<rfloor> + 1) \<le> real_of_int (2 ^ nat (ilog2 \<lfloor>x\<rfloor> + 1))"
    by (simp only: of_int_le_iff)
  moreover have "x < real_of_int (\<lfloor>x\<rfloor> + 1)" by linarith
  moreover have "real_of_int (2 ^ nat (ilog2 \<lfloor>x\<rfloor> + 1)) = 2 ^ nat (ilog2 \<lfloor>x\<rfloor> + 1)"
    by simp
  ultimately have hi: "x < 2 ^ nat (ilog2 \<lfloor>x\<rfloor> + 1)" by linarith
  show ?thesis
    using lo hi ilog2_nonneg [of "\<lfloor>x\<rfloor>"] by (simp add: e pow2_of_nat)
next
  case False
  define n where "n = \<lceil>1 / x\<rceil>"
  from False assms have gt: "1 < 1 / x" by simp
  then have n2: "2 \<le> n" unfolding n_def by linarith
  define k where "k = ilog2 (n - 1) + 1"
  have e: "floor_log2 x = - k"
    using False n2 by (simp add: floor_log2_def n_def [symmetric] k_def Let_def)
  have k1: "1 \<le> k" using ilog2_nonneg [of "n - 1"] by (simp add: k_def)
  from n2 have "1 \<le> n - 1" by simp
  from ilog2_bounds [OF this]
  have b: "2 ^ nat (k - 1) \<le> n - 1" "n - 1 < 2 ^ nat k"
    by (simp_all add: k_def)
  have up: "1 / x \<le> real_of_int n" unfolding n_def by linarith
  have dn: "real_of_int (n - 1) < 1 / x" unfolding n_def by linarith
  from b(2) have "n \<le> 2 ^ nat k" by simp
  then have "real_of_int n \<le> 2 ^ nat k"
    using of_int_le_iff [where ?'a = real, of n "2 ^ nat k"] by simp
  with up have "1 / x \<le> 2 ^ nat k" by linarith
  with assms have "1 \<le> x * 2 ^ nat k"
    by (simp add: field_simps)
  then have lo: "1 / 2 ^ nat k \<le> x"
    by (simp add: field_simps)
  from b(1) have "2 ^ nat (k - 1) \<le> real_of_int (n - 1)"
    using of_int_le_iff [where ?'a = real, of "2 ^ nat (k - 1)" "n - 1"] by simp
  with dn have "2 ^ nat (k - 1) < 1 / x" by linarith
  with assms have "x * 2 ^ nat (k - 1) < 1"
    by (simp add: field_simps)
  then have hi: "x < 1 / 2 ^ nat (k - 1)"
    by (simp add: field_simps)
  have p1: "pow2 (- k) = 1 / 2 ^ nat k"
    using k1 by (simp add: pow2_neg)
  have "- k + 1 = - (k - 1)" by simp
  then have p2: "pow2 (- k + 1) = 1 / 2 ^ nat (k - 1)"
    using pow2_neg [of "k - 1"] k1 by simp
  show ?thesis using lo hi by (simp only: e p1 p2)
qed

lemma round_half_even_near: "\<bar>real_of_int (round_half_even z) - z\<bar> \<le> 1 / 2"
  unfolding round_half_even_def Let_def
  by (auto split: if_splits)

lemma round64_near:
  assumes "round64 x = Num y"
  shows "\<bar>y - x\<bar> \<le> pow2 (max (floor_log2 \<bar>x\<bar>) (- 1022) - 52) / 2"
proof (cases "x = 0")
  case True
  with assms have "y = 0" by (simp add: round64_def)
  with True show ?thesis using pow2_pos [of "max (floor_log2 \<bar>x\<bar>) (- 1022) - 52"]
    by simp
next
  case False
  define q where "q = pow2 (max (floor_log2 \<bar>x\<bar>) (- 1022) - 52)"
  have q: "0 < q" by (simp add: q_def pow2_pos)
  from assms False have y: "y = real_of_int (round_half_even (x / q)) * q"
    by (auto simp: round64_def Let_def q_def split: if_splits)
  have "y - x = (real_of_int (round_half_even (x / q)) - x / q) * q"
    using q by (simp add: y field_simps)
  then have "\<bar>y - x\<bar> = \<bar>real_of_int (round_half_even (x / q)) - x / q\<bar> * q"
    using q by (simp add: abs_mult)
  also have "\<dots> \<le> 1 / 2 * q"
    using round_half_even_near [of "x / q"] q by (intro mult_right_mono) simp_all
  finally show ?thesis by (simp add: q_def)
qed

lemma round64_examples:
  "round64 (4 / 5) = Num (3602879701896397 / 4503599627370496)"
  "js_times (Num 3) point8 = Num (1351079888211149 / 562949953421312)"
  "js_times (js_divide (Num 1) (Num 49)) (Num 49) = Num (9007199254740991 / 9007199254740992)"
  "js_times (Num 10) point8 = Num 8"
  "round64 (2 ^ 53 + 1) = Num (2 ^ 53)"
  by (simp_all add: number_eval)

section \<open>Properties of the process runner\<close>

lemma includes_iff_sublist: "str_includes s t \<longleftrightarrow> sublist t s"
  by (induction s) (auto simp: sublist_Cons_right)

lemma includes_decompose: "str_includes s t \<longleftrightarrow> (\<exists>pre post. s = pre @ t @ post)"
  by (simp add: includes_iff_sublist sublist_def)

lemma executeTest_keeps_output:
  "r_output (executeTest (Threw (Some b) m)) = Some (trim b)"
  "r_error (executeTest (Threw stdout m)) = Some (normalize_message m)"
  by simp_all

text \<open>
  Claim C6. Whenever the test command fails, \<^verbatim>\<open>executeTest\<close> should return the trimmed
  standard output captured before the failure together with the error message. The grader
  script does (\<open>executeTest_keeps_output\<close>); \<^verbatim>\<open>executeTest\<close> of \<^verbatim>\<open>src/main.js\<close> returns
  the message and no output: for a command that printed one test result line and then
  exited with a failure, the captured line is discarded.
\<close>

theorem executeTest_main_discards_output:
  "executeTest_main (Threw (Some (js ''Suite > A PASSED'')) (js ''Command failed: ./gradlew test''))
     = \<lparr>r_output = None, r_error = Some (js ''Command failed: ./gradlew test'')\<rparr>
   \<and> executeTest (Threw (Some (js ''Suite > A PASSED'')) (js ''Command failed: ./gradlew test''))
     = \<lparr>r_output = Some (js ''Suite > A PASSED''),
        r_error = Some (js ''Command failed: ./gradlew test'')\<rparr>"
  by (simp add: js_def normalize_message_def trim_def isWhiteSpace_def)

lemma executeTest_error_value:
  "r_error (executeTest (Threw stdout m))
     = Some (if str_includes m (js ''ETIMEDOUT'') then js ''Command was killed due to timeout'' else m)"
  "r_error (executeTest_main (Threw stdout m))
     = Some (if str_includes m (js ''ETIMEDOUT'') then js ''Command was killed due to timeout'' else m)"
  by (simp_all add: normalize_message_def timeout_message_def)

text \<open>
  Claim C7. When the test command fails, the returned error message should be the fixed
  string "Command was killed due to timeout" if and only if the failure is a time-based
  kill, and the raw failure message, unchanged, for every other failure. The code decides by
  looking for the text ETIMEDOUT anywhere in the failure message, which holds the command
  line and the standard error of the child as well. The command
  \<^verbatim>\<open>echo hi; exit 3 # ETIMEDOUT\<close> prints a line and exits at once with code 3: it is not
  killed and no time limit expires, its failure message is the text "Command failed: "
  followed by the command line, and the returned message is the fixed timeout string, not
  the raw message.
\<close>

theorem executeTest_reports_timeout_for_plain_exit:
  "executeTest (Threw (Some (js ''hi'' @ [10])) (js ''Command failed: echo hi; exit 3 # ETIMEDOUT''))
     = \<lparr>r_output = Some (js ''hi''),
        r_error = Some (js ''Command was killed due to timeout'')\<rparr>
   \<and> r_error (executeTest
         (Threw (Some (js ''hi'' @ [10])) (js ''Command failed: echo hi; exit 3 # ETIMEDOUT'')))
       \<noteq> Some (js ''Command failed: echo hi; exit 3 # ETIMEDOUT'')
   \<and> r_error (executeTest (Threw None (js ''spawnSync /bin/sh ETIMEDOUT'')))
       = Some (js ''Command was killed due to timeout'')
   \<and> r_error (executeTest (Threw None (js ''Command failed: exit 1'')))
       = Some (js ''Command failed: exit 1'')"
  by (simp add: js_def normalize_message_def timeout_message_def trim_def isWhiteSpace_def)

section \<open>Properties of the hierarchy parser\<close>

lemma le_length_takeWhile:
  "k \<le> length (takeWhile P s) \<longleftrightarrow> k \<le> length s \<and> list_all P (take k s)"
proof (induction s arbitrary: k)
  case Nil
  then show ?case by simp
next
  case (Cons x s)
  then show ?case by (cases k) auto
qed

lemma token_at_iff: "token_at s = Some t \<longleftrightarrow> is_token t \<and> prefix t s"
  by (cases s) (auto simp: token_at_def is_token_def js_def)

lemma try_ws_None_iff:
  "try_ws j s = None \<longleftrightarrow> (\<forall>i. 0 < i \<and> i \<le> j \<longrightarrow> token_at (drop i s) = None)"
proof (induction j)
  case 0
  then show ?case by simp
next
  case (Suc j)
  show ?case
  proof
    assume "try_ws (Suc j) s = None"
    then have a: "token_at (drop (Suc j) s) = None" and b: "try_ws j s = None"
      by (auto split: option.splits)
    show "\<forall>i. 0 < i \<and> i \<le> Suc j \<longrightarrow> token_at (drop i s) = None"
    proof (intro allI impI)
      fix i assume "0 < i \<and> i \<le> Suc j"
      then consider "i = Suc j" | "0 < i \<and> i \<le> j" by linarith
      then show "token_at (drop i s) = None"
        using a b Suc.IH by cases auto
    qed
  next
    assume h: "\<forall>i. 0 < i \<and> i \<le> Suc j \<longrightarrow> token_at (drop i s) = None"
    then have "token_at (drop (Suc j) s) = None" by simp
    moreover from h have "try_ws j s = None" using Suc.IH by simp
    ultimately show "try_ws (Suc j) s = None" by simp
  qed
qed

lemma try_ws_Some:
  "try_ws j s = Some t \<Longrightarrow> \<exists>i. 0 < i \<and> i \<le> j \<and> token_at (drop i s) = Some t"
proof (induction j)
  case 0
  then show ?case by simp
next
  case (Suc j)
  show ?case
  proof (cases "token_at (drop (Suc j) s)")
    case None
    with Suc.prems have "try_ws j s = Some t" by simp
    with Suc.IH obtain i where "0 < i \<and> i \<le> j \<and> token_at (drop i s) = Some t" by blast
    then show ?thesis by (intro exI [of _ i]) simp
  next
    case (Some t')
    with Suc.prems have "t' = t" by simp
    with Some show ?thesis by (intro exI [of _ "Suc j"]) simp
  qed
qed

lemma ws_shape_at:
  assumes "ws_shape s ws t r"
  shows "0 < length ws \<and> length ws \<le> length (takeWhile isWhiteSpace s)
         \<and> token_at (drop (length ws) s) = Some t"
  using assms by (auto simp: ws_shape_def le_length_takeWhile token_at_iff)

lemma ws_token_None_iff: "ws_token s = None \<longleftrightarrow> (\<forall>ws t r. \<not> ws_shape s ws t r)"
proof
  assume n: "ws_token s = None"
  show "\<forall>ws t r. \<not> ws_shape s ws t r"
  proof (intro allI notI)
    fix ws t r assume "ws_shape s ws t r"
    from ws_shape_at [OF this] n show False
      by (auto simp: ws_token_def try_ws_None_iff)
  qed
next
  assume h: "\<forall>ws t r. \<not> ws_shape s ws t r"
  show "ws_token s = None"
  proof (rule ccontr)
    assume "ws_token s \<noteq> None"
    then obtain t where "try_ws (length (takeWhile isWhiteSpace s)) s = Some t"
      by (auto simp: ws_token_def)
    from try_ws_Some [OF this] obtain i where i: "0 < i"
      "i \<le> length (takeWhile isWhiteSpace s)" "token_at (drop i s) = Some t" by blast
    from i(3) obtain r where r: "drop i s = t @ r" "is_token t"
      by (auto simp: token_at_iff prefix_def)
    from i(2) have l: "i \<le> length s" "list_all isWhiteSpace (take i s)"
      by (simp_all add: le_length_takeWhile)
    have "s = take i s @ t @ r" using r(1) by (metis append_take_drop_id)
    moreover have "take i s \<noteq> []" using i(1) l(1) by auto
    ultimately have "ws_shape s (take i s) t r"
      using l(2) r(2) by (simp add: ws_shape_def)
    with h show False by blast
  qed
qed

lemma ws_token_Some: "ws_token s = Some t \<Longrightarrow> \<exists>ws r. ws_shape s ws t r"
proof -
  assume "ws_token s = Some t"
  then have "try_ws (length (takeWhile isWhiteSpace s)) s = Some t"
    by (simp add: ws_token_def)
  from try_ws_Some [OF this] obtain i where i: "0 < i"
    "i \<le> length (takeWhile isWhiteSpace s)" "token_at (drop i s) = Some t" by blast
  from i(3) obtain r where r: "drop i s = t @ r" "is_token t"
    by (auto simp: token_at_iff prefix_def)
  from i(2) have l: "i \<le> length s" "list_all isWhiteSpace (take i s)"
    by (simp_all add: le_length_takeWhile)
  have "s = take i s @ t @ r" using r(1) by (metis append_take_drop_id)
  moreover have "take i s \<noteq> []" using i(1) l(1) by auto
  ultimately have "ws_shape s (take i s) t r"
    using l(2) r(2) by (simp add: ws_shape_def)
  then show ?thesis by blast
qed

lemma try_dot_None_iff:
  "try_dot k s = None \<longleftrightarrow> (\<forall>i. 0 < i \<and> i \<le> k \<longrightarrow> ws_token (drop i s) = None)"
proof (induction k)
  case 0
  then show ?case by simp
next
  case (Suc k)
  show ?case
  proof
    assume "try_dot (Suc k) s = None"
    then have a: "ws_token (drop (Suc k) s) = None" and b: "try_dot k s = None"
      by (auto split: option.splits)
    show "\<forall>i. 0 < i \<and> i \<le> Suc k \<longrightarrow> ws_token (drop i s) = None"
    proof (intro allI impI)
      fix i assume "0 < i \<and> i \<le> Suc k"
      then consider "i = Suc k" | "0 < i \<and> i \<le> k" by linarith
      then show "ws_token (drop i s) = None"
        using a b Suc.IH by cases auto
    qed
  next
    assume h: "\<forall>i. 0 < i \<and> i \<le> Suc k \<longrightarrow> ws_token (drop i s) = None"
    then have "ws_token (drop (Suc k) s) = None" by simp
    moreover from h have "try_dot k s = None" using Suc.IH by simp
    ultimately show "try_dot (Suc k) s = None" by simp
  qed
qed

lemma try_dot_Some:
  "try_dot k s = Some (p, t) \<Longrightarrow>
     \<exists>i. 0 < i \<and> i \<le> k \<and> p = take i s \<and> ws_token (drop i s) = Some t
         \<and> (\<forall>i'. i < i' \<and> i' \<le> k \<longrightarrow> ws_token (drop i' s) = None)"
proof (induction k)
  case 0
  then show ?case by simp
next
  case (Suc k)
  show ?case
  proof (cases "ws_token (drop (Suc k) s)")
    case None
    with Suc.prems have "try_dot k s = Some (p, t)" by simp
    with Suc.IH obtain i where i: "0 < i" "i \<le> k" "p = take i s"
      "ws_token (drop i s) = Some t"
      "\<forall>i'. i < i' \<and> i' \<le> k \<longrightarrow> ws_token (drop i' s) = None" by blast
    have "\<forall>i'. i < i' \<and> i' \<le> Suc k \<longrightarrow> ws_token (drop i' s) = None"
    proof (intro allI impI)
      fix i' assume "i < i' \<and> i' \<le> Suc k"
      then consider "i' = Suc k" | "i < i' \<and> i' \<le> k" by linarith
      then show "ws_token (drop i' s) = None" using None i(5) by cases auto
    qed
    with i show ?thesis by (intro exI [of _ i]) simp
  next
    case (Some t')
    with Suc.prems have "p = take (Suc k) s" "t' = t" by simp_all
    with Some show ?thesis by (intro exI [of _ "Suc k"]) auto
  qed
qed

lemma line_shape_here:
  assumes "line_shape s [] p ws t r"
  shows "0 < length p \<and> length p \<le> length (takeWhile isDot s)
         \<and> ws_token (drop (length p) s) \<noteq> None"
proof -
  from assms have s: "s = p @ ws @ t @ r" and p: "p \<noteq> []" "list_all isDot p"
    and w: "ws_shape (ws @ t @ r) ws t r"
    by (simp_all add: line_shape_def)
  from s have "drop (length p) s = ws @ t @ r" by simp
  with w have "ws_token (drop (length p) s) \<noteq> None"
    by (auto simp: ws_token_None_iff)
  moreover from s p have "length p \<le> length (takeWhile isDot s)"
    by (simp add: le_length_takeWhile)
  ultimately show ?thesis using p by simp
qed

lemma match_here_None_iff:
  "match_here s = None \<longleftrightarrow> (\<forall>p ws t r. \<not> line_shape s [] p ws t r)"
proof
  assume n: "match_here s = None"
  show "\<forall>p ws t r. \<not> line_shape s [] p ws t r"
  proof (intro allI notI)
    fix p ws t r assume "line_shape s [] p ws t r"
    from line_shape_here [OF this] n show False
      by (auto simp: match_here_def try_dot_None_iff)
  qed
next
  assume h: "\<forall>p ws t r. \<not> line_shape s [] p ws t r"
  show "match_here s = None"
  proof (rule ccontr)
    assume "match_here s \<noteq> None"
    then obtain p t where "try_dot (length (takeWhile isDot s)) s = Some (p, t)"
      by (auto simp: match_here_def)
    from try_dot_Some [OF this] obtain i where i: "0 < i"
      "i \<le> length (takeWhile isDot s)" "p = take i s" "ws_token (drop i s) = Some t" by blast
    from ws_token_Some [OF i(4)] obtain ws r where w: "ws_shape (drop i s) ws t r" by blast
    from i(2) have l: "i \<le> length s" "list_all isDot (take i s)"
      by (simp_all add: le_length_takeWhile)
    from w have d: "drop i s = ws @ t @ r" by (simp add: ws_shape_def)
    have "s = take i s @ ws @ t @ r" using d by (metis append_take_drop_id)
    moreover have "take i s \<noteq> []" using i(1) l(1) by auto
    ultimately have "line_shape s [] (take i s) ws t r"
      using l(2) w d by (simp add: line_shape_def)
    with h show False by blast
  qed
qed

lemma match_here_Some:
  assumes "match_here s = Some (p, t)"
  shows "(\<exists>ws r. line_shape s [] p ws t r)
         \<and> (\<forall>p' ws' t' r'. line_shape s [] p' ws' t' r' \<longrightarrow> length p' \<le> length p)"
proof -
  from assms have "try_dot (length (takeWhile isDot s)) s = Some (p, t)"
    by (simp add: match_here_def)
  from try_dot_Some [OF this] obtain i where i: "0 < i"
    "i \<le> length (takeWhile isDot s)" "p = take i s" "ws_token (drop i s) = Some t"
    "\<forall>i'. i < i' \<and> i' \<le> length (takeWhile isDot s) \<longrightarrow> ws_token (drop i' s) = None"
    by blast
  from ws_token_Some [OF i(4)] obtain ws r where w: "ws_shape (drop i s) ws t r" by blast
  from i(2) have l: "i \<le> length s" "list_all isDot (take i s)"
    by (simp_all add: le_length_takeWhile)
  from w have d: "drop i s = ws @ t @ r" by (simp add: ws_shape_def)
  have "s = take i s @ ws @ t @ r" using d by (metis append_take_drop_id)
  moreover have "take i s \<noteq> []" using i(1) l(1) by auto
  ultimately have "line_shape s [] p ws t r"
    using l(2) w d i(3) by (simp add: line_shape_def)
  then have a: "\<exists>ws r. line_shape s [] p ws t r" by blast
  have len: "length p = i" using i(3) l(1) by simp
  have b: "\<forall>p' ws' t' r'. line_shape s [] p' ws' t' r' \<longrightarrow> length p' \<le> length p"
  proof (intro allI impI)
    fix p' ws' t' r' assume "line_shape s [] p' ws' t' r'"
    from line_shape_here [OF this] i(5) len show "length p' \<le> length p"
      by (metis not_le_imp_less)
  qed
  from a b show ?thesis by simp
qed

lemma line_shape_Nil: "\<not> line_shape [] a p ws t r"
  by (simp add: line_shape_def)

lemma line_shape_Cons_Cons:
  "line_shape (c # s) (c' # a) p ws t r \<longleftrightarrow> c' = c \<and> line_shape s a p ws t r"
  by (auto simp: line_shape_def)

lemma line_shape_Cons_cases:
  "line_shape (c # s) a p ws t r \<Longrightarrow>
     a = [] \<or> (\<exists>a'. a = c # a' \<and> line_shape s a' p ws t r)"
  by (cases a) (auto simp: line_shape_def)

lemma regex_match_None_iff:
  "regex_match s = None \<longleftrightarrow> (\<forall>a p ws t r. \<not> line_shape s a p ws t r)"
proof (induction s)
  case Nil
  then show ?case by (simp add: line_shape_Nil)
next
  case (Cons c s)
  have "regex_match (c # s) = None \<longleftrightarrow> match_here (c # s) = None \<and> regex_match s = None"
    by (auto split: option.splits)
  also have "\<dots> \<longleftrightarrow> (\<forall>p ws t r. \<not> line_shape (c # s) [] p ws t r)
                      \<and> (\<forall>a p ws t r. \<not> line_shape s a p ws t r)"
    by (simp only: match_here_None_iff Cons.IH)
  also have "\<dots> \<longleftrightarrow> (\<forall>a p ws t r. \<not> line_shape (c # s) a p ws t r)"
  proof
    assume h: "(\<forall>p ws t r. \<not> line_shape (c # s) [] p ws t r)
               \<and> (\<forall>a p ws t r. \<not> line_shape s a p ws t r)"
    show "\<forall>a p ws t r. \<not> line_shape (c # s) a p ws t r"
    proof (intro allI notI)
      fix a p ws t r assume "line_shape (c # s) a p ws t r"
      then have l: "line_shape (c # s) a p ws t r" .
      from line_shape_Cons_cases [OF l] l h show False by blast
    qed
  next
    assume h: "\<forall>a p ws t r. \<not> line_shape (c # s) a p ws t r"
    have "\<not> line_shape s a p ws t r" for a p ws t r
      using h [rule_format, of "c # a" p ws t r] by (simp add: line_shape_Cons_Cons)
    with h show "(\<forall>p ws t r. \<not> line_shape (c # s) [] p ws t r)
                 \<and> (\<forall>a p ws t r. \<not> line_shape s a p ws t r)"
      by blast
  qed
  finally show ?case .
qed

lemma regex_match_Some:
  "regex_match s = Some (p, t) \<Longrightarrow>
     \<exists>a ws r. line_shape s a p ws t r
       \<and> (\<forall>a' p' ws' t' r'. line_shape s a' p' ws' t' r' \<longrightarrow>
             length a \<le> length a' \<and> (length a' = length a \<longrightarrow> length p' \<le> length p))"
proof (induction s)
  case Nil
  then show ?case by simp
next
  case (Cons c s)
  show ?case
  proof (cases "match_here (c # s)")
    case None
    with Cons.prems have "regex_match s = Some (p, t)" by simp
    from Cons.IH [OF this] obtain a ws r where a: "line_shape s a p ws t r"
      and m: "\<forall>a' p' ws' t' r'. line_shape s a' p' ws' t' r' \<longrightarrow>
             length a \<le> length a' \<and> (length a' = length a \<longrightarrow> length p' \<le> length p)"
      by blast
    have 1: "line_shape (c # s) (c # a) p ws t r"
      using a by (simp add: line_shape_Cons_Cons)
    have 2: "length (c # a) \<le> length a'
             \<and> (length a' = length (c # a) \<longrightarrow> length p' \<le> length p)"
      if h: "line_shape (c # s) a' p' ws' t' r'" for a' p' ws' t' r'
    proof -
      from h None have "a' \<noteq> []"
        by (auto simp: match_here_None_iff)
      with line_shape_Cons_cases [OF h] obtain a'' where a'': "a' = c # a''"
        "line_shape s a'' p' ws' t' r'"
        by blast
      from m [rule_format, OF a''(2)] a''(1) show ?thesis by simp
    qed
    from 1 2 show ?thesis by blast
  next
    case (Some x)
    with Cons.prems have x: "match_here (c # s) = Some (p, t)" by simp
    from match_here_Some [OF x] obtain ws r where a: "line_shape (c # s) [] p ws t r"
      and m: "\<forall>p' ws' t' r'. line_shape (c # s) [] p' ws' t' r' \<longrightarrow> length p' \<le> length p"
      by blast
    have "length ([] :: jsstring) \<le> length a'
          \<and> (length a' = length ([] :: jsstring) \<longrightarrow> length p' \<le> length p)"
      if h: "line_shape (c # s) a' p' ws' t' r'" for a' p' ws' t' r'
      using h m by auto
    with a show ?thesis by blast
  qed
qed

lemma parse_lines_no_match:
  "list_all (\<lambda>l. regex_match (trim l) = None) ls \<Longrightarrow> parse_lines tree ls = Inr tree"
  by (induction ls) (simp_all add: parse_line_def)

lemma two_tokens_match:
  "regex_match (trim (js ''A PASSED B FAILED'')) = Some (js ''A PASSED B'', js ''FAILED'')"
  by (simp add: match_here_def ws_token_def token_at_def string_eval)

lemma two_tokens_parse:
  "parseGradleTestResults (Some (js ''A PASSED B FAILED''))
     = Inr (JObj [(js ''A PASSED B'', JBool False)])"
  by (simp add: parse_eval string_eval)

lemma two_tokens_short_shape:
  "line_shape (trim (js ''A PASSED B FAILED'')) [] (js ''A'') (js '' '') (js ''PASSED'')
     (js '' B FAILED'')"
  by (simp add: line_shape_def ws_shape_def is_token_def string_eval)

lemma no_token_match: "regex_match (trim (js ''hello world'')) = None"
  by (simp add: match_here_def ws_token_def token_at_def string_eval)

text \<open>
  Claim C4, as amended. For every input text, the parser recognises exactly the trimmed
  lines that contain a prefix of one or more characters other than line terminators, then
  one or more white space characters, then the word PASSED or FAILED, and it leaves the tree
  as it is on every other line. The prefix is greedy: the match starts at the leftmost
  position where one exists, and its prefix is the longest one a match from there has. So
  for a line with two such words the prefix runs to the last of them.
\<close>

theorem parse_line_greedy:
  "(regex_match (trim line) = None
      \<longleftrightarrow> (\<forall>a p ws t r. \<not> line_shape (trim line) a p ws t r))
   \<and> (regex_match (trim line) = None \<longrightarrow> parse_line tree line = Inr tree)
   \<and> (\<forall>p t. regex_match (trim line) = Some (p, t) \<longrightarrow>
         (\<exists>a ws r. line_shape (trim line) a p ws t r
            \<and> (\<forall>a' p' ws' t' r'. line_shape (trim line) a' p' ws' t' r' \<longrightarrow>
                  length a \<le> length a'
                  \<and> (length a' = length a \<longrightarrow> length p' \<le> length p)))
         \<and> parse_line tree line =
             (case walk (Some tree) (split_hierarchy [] p) (t = js ''PASSED'') of
                Inl e \<Rightarrow> Inl e
              | Inr None \<Rightarrow> Inr tree
              | Inr (Some tree') \<Rightarrow> Inr tree'))"
proof (intro conjI allI impI)
  show "regex_match (trim line) = None
      \<longleftrightarrow> (\<forall>a p ws t r. \<not> line_shape (trim line) a p ws t r)"
    by (rule regex_match_None_iff)
next
  assume "regex_match (trim line) = None"
  then show "parse_line tree line = Inr tree"
    by (simp add: parse_line_def)
next
  fix p t assume "regex_match (trim line) = Some (p, t)"
  then show "\<exists>a ws r. line_shape (trim line) a p ws t r
            \<and> (\<forall>a' p' ws' t' r'. line_shape (trim line) a' p' ws' t' r' \<longrightarrow>
                  length a \<le> length a'
                  \<and> (length a' = length a \<longrightarrow> length p' \<le> length p))"
    by (rule regex_match_Some)
next
  fix p t assume "regex_match (trim line) = Some (p, t)"
  then show "parse_line tree line =
             (case walk (Some tree) (split_hierarchy [] p) (t = js ''PASSED'') of
                Inl e \<Rightarrow> Inl e
              | Inr None \<Rightarrow> Inr tree
              | Inr (Some tree') \<Rightarrow> Inr tree')"
    by (simp add: parse_line_def)
qed

text \<open>
  A line without a result word, and the line "A PASSED B FAILED": the path is the single
  name "A PASSED B" and the word is FAILED.
\<close>

theorem parse_line_greedy_witness:
  "regex_match (trim (js ''hello world'')) = None
   \<and> parse_line (JObj []) (js ''hello world'') = Inr (JObj [])
   \<and> regex_match (trim (js ''A PASSED B FAILED'')) = Some (js ''A PASSED B'', js ''FAILED'')
   \<and> (\<exists>a ws r. line_shape (trim (js ''A PASSED B FAILED'')) a (js ''A PASSED B'') ws
                  (js ''FAILED'') r
         \<and> length a \<le> length ([] :: jsstring)
         \<and> length (js ''A'') \<le> length (js ''A PASSED B''))
   \<and> parse_line (JObj []) (js ''A PASSED B FAILED'')
       = Inr (JObj [(js ''A PASSED B'', JBool False)])"
proof -
  from parse_line_greedy [of "js ''hello world''" "JObj []"] no_token_match
  have 1: "parse_line (JObj []) (js ''hello world'') = Inr (JObj [])"
    by simp
  from parse_line_greedy [of "js ''A PASSED B FAILED''" "JObj []"] two_tokens_match
  obtain a ws r where a: "line_shape (trim (js ''A PASSED B FAILED'')) a (js ''A PASSED B'') ws
                  (js ''FAILED'') r"
    and m: "\<forall>a' p' ws' t' r'. line_shape (trim (js ''A PASSED B FAILED'')) a' p' ws' t' r' \<longrightarrow>
                  length a \<le> length a'
                  \<and> (length a' = length a \<longrightarrow> length p' \<le> length (js ''A PASSED B''))"
    and w: "parse_line (JObj []) (js ''A PASSED B FAILED'') =
             (case walk (Some (JObj [])) (split_hierarchy [] (js ''A PASSED B''))
                     (js ''FAILED'' = js ''PASSED'') of
                Inl e \<Rightarrow> Inl e
              | Inr None \<Rightarrow> Inr (JObj [])
              | Inr (Some tests') \<Rightarrow> Inr tests')"
    by blast
  from m [rule_format, OF two_tokens_short_shape]
  have l: "length a \<le> length ([] :: jsstring)"
    "length (js ''A'') \<le> length (js ''A PASSED B'')"
    by simp_all
  have s: "split_hierarchy [] (js ''A PASSED B'') = [js ''A PASSED B'']"
    by (simp add: sep_match_def string_eval)
  have 2: "parse_line (JObj []) (js ''A PASSED B FAILED'')
       = Inr (JObj [(js ''A PASSED B'', JBool False)])"
    using w s by (simp add: js_def)
  from 1 2 a l no_token_match two_tokens_match show ?thesis by blast
qed

text \<open>
  Claim C4 as stated fails on its own example: "A PASSED B FAILED" has a match with the
  prefix "A" and the word PASSED, and the parser takes the prefix "A PASSED B" and the word
  FAILED.
\<close>

theorem shortest_prefix_counterexample:
  "line_shape (trim (js ''A PASSED B FAILED'')) [] (js ''A'') (js '' '') (js ''PASSED'')
     (js '' B FAILED'')
   \<and> regex_match (trim (js ''A PASSED B FAILED'')) = Some (js ''A PASSED B'', js ''FAILED'')
   \<and> regex_match (trim (js ''A PASSED B FAILED'')) \<noteq> Some (js ''A'', js ''PASSED'')
   \<and> parseGradleTestResults (Some (js ''A PASSED B FAILED''))
       = Inr (JObj [(js ''A PASSED B'', JBool False)])
   \<and> parseGradleTestResults (Some (js ''A PASSED B FAILED''))
       \<noteq> Inr (JObj [(js ''A'', JBool True)])"
  using two_tokens_short_shape two_tokens_match two_tokens_parse
  by (simp add: js_def)

text \<open>
  A later path through a leaf: a leaf that is false is replaced by an object that takes the
  deeper entry; a leaf that is true is kept, and the deeper entry is dropped (one segment
  deeper) or the walk throws (two or more segments deeper).
\<close>

lemma walk_false_leaf_coerced:
  assumes "map_of kvs l = Some (JBool False)"
  shows "walk (Some (JObj kvs)) [l, k] b
           = Inr (Some (JObj (AList.update l (JObj [(k, JBool b)]) kvs)))"
  using assms by (simp add: update_conv' AList.update_last)

lemma walk_true_leaf_kept:
  assumes "map_of kvs l = Some (JBool True)"
  shows "walk (Some (JObj kvs)) [l, k] b = Inr (Some (JObj kvs))"
    and "walk (Some (JObj kvs)) (l # k # k' # rest) b
           = Inl (if rest = [] then cannot_set k' else cannot_read k')"
  using assms by (cases rest; simp add: AList.update_triv)+

text \<open>
  Claim C5. A leaf that a later, longer path uses as a branch should be coerced into a
  nested object whether it was true or false, without an error. The parser does so for a
  leaf that is false. A leaf that is true is kept: for the text "A PASSED", "A > B > C PASSED"
  the parser throws a \<^verbatim>\<open>TypeError\<close>, and for "A PASSED", "A > B PASSED" the deeper entry
  is dropped silently.
\<close>

theorem true_leaf_not_coerced:
  "parseGradleTestResults (Some (lines [js ''A PASSED'', js ''A > B > C PASSED'']))
     = Inl (JsTypeError (js ''Cannot set properties of undefined (setting 'C')''))
   \<and> parseGradleTestResults (Some (lines [js ''A PASSED'', js ''A > B PASSED'']))
     = Inr (JObj [(js ''A'', JBool True)])
   \<and> parseGradleTestResults (Some (lines [js ''A FAILED'', js ''A > B > C PASSED'']))
     = Inr (JObj [(js ''A'', JObj [(js ''B'', JObj [(js ''C'', JBool True)])])])"
  by (simp add: parse_eval string_eval cannot_set_def cannot_read_def)

section \<open>Properties of the score aggregator\<close>

lemma getInputs_Inr:
  assumes "getInputs w = Inr i"
  shows "\<exists>ps ms. getInput w (js ''pass-score'') False = Inr ps
           \<and> getInput w (js ''max-score'') False = Inr ms
           \<and> maxScore i = parseInt_or_0 ms
           \<and> passScore i = (if js_less (Num 0) (parseInt_or_0 ps) then parseInt_or_0 ps
                             else js_times (maxScore i) point8)"
  using assms
  by (auto simp: getInputs_def try_then_eq_Inr Let_def split: if_splits)

lemma run_try_scoring:
  assumes "getInputs w = Inr i"
    and "run_setup w (setupCommand i) = Inr ()"
    and "parseGradleTestResults (r_output (executeTest (test_exec w))) = Inr tree"
    and "countPassedTests (props tree) (0, 0) = (c, p)"
  shows "run_try w =
     try_then (if 0 < c then Inr (hierarchy_scoring i c p)
               else io_fallback w i (executeTest (test_exec w)))
       (\<lambda>v. Inr (result_envelope i (elapsed_ms w) v))"
  using assms by (simp add: run_try_def Let_def)

lemma js_less_0_not_eq0: "js_less (Num 0) m \<Longrightarrow> \<not> js_strict_equals m (Num 0)"
  by (cases m) (simp_all add: js_strict_equals_def)

text \<open>
  Claim C1, as amended. For every run that reaches the scoring, whose parsed tree has at
  least one leaf and whose configured max-score reads as 0 (it is unset, or it parses to
  zero), the aggregator produces maxScore = taskCount, passScore = taskCount * 0.8 and
  score = taskPassed, the status is fail exactly when taskPassed is below that threshold,
  and the run emits this verdict. The guard of the branch is equality with 0: a negative
  max-score does not take it.
\<close>

theorem lazy_mode:
  assumes "getInputs w = Inr i"
    and "run_setup w (setupCommand i) = Inr ()"
    and "parseGradleTestResults (r_output (executeTest (test_exec w))) = Inr tree"
    and "countPassedTests (props tree) (0, 0) = (taskCount, taskPassed)"
    and "0 < taskCount"
    and "maxScore i = Num 0"
  shows "hierarchy_scoring i taskCount taskPassed =
           \<lparr>v_status = (if js_less (of_count taskPassed) (js_times (of_count taskCount) point8)
                        then StatusFail else StatusPass),
            v_message = (if js_less (of_count taskPassed) (js_times (of_count taskCount) point8)
                         then Some (js ''You need earn more score.'') else None),
            v_maxScore = of_count taskCount,
            v_score = of_count taskPassed,
            v_passScore = js_times (of_count taskCount) point8\<rparr>
         \<and> run w = [result_envelope i (elapsed_ms w) (hierarchy_scoring i taskCount taskPassed)]
         \<and> (\<forall>raw. getInput w (js ''max-score'') False = Inr raw \<longrightarrow> parseInt_or_0 raw = Num 0)
         \<and> parseInt_or_0 [] = Num 0"
proof -
  have h: "hierarchy_scoring i taskCount taskPassed =
           \<lparr>v_status = (if js_less (of_count taskPassed) (js_times (of_count taskCount) point8)
                        then StatusFail else StatusPass),
            v_message = (if js_less (of_count taskPassed) (js_times (of_count taskCount) point8)
                         then Some (js ''You need earn more score.'') else None),
            v_maxScore = of_count taskCount,
            v_score = of_count taskPassed,
            v_passScore = js_times (of_count taskCount) point8\<rparr>"
    using assms(6)
    by (simp add: hierarchy_scoring_def initial_verdict_def js_strict_equals_def Let_def)
  have r: "run w = [result_envelope i (elapsed_ms w) (hierarchy_scoring i taskCount taskPassed)]"
    using run_try_scoring [OF assms(1-4)] assms(5) by (simp add: run_def)
  from getInputs_Inr [OF assms(1)] assms(6)
  have m: "\<forall>raw. getInput w (js ''max-score'') False = Inr raw \<longrightarrow> parseInt_or_0 raw = Num 0"
    by auto
  show ?thesis using h r m by (simp add: parseInt_or_0_def)
qed

text \<open>
  The example of the specification: ten leaves, seven passed, max-score unset.
\<close>

theorem lazy_mode_witness:
  "run (example_world basic_env (Returned ten_results)) =
     [\<lparr>version = 1, e_status = StatusFail, max_score = Some (Num 10),
       tests = [\<lparr>t_name = js ''t'', t_status = StatusFail,
                 t_message = Some (js ''You need earn more score.''),
                 test_code = js ''gradle test <stdin>'', filename = [], line_no = 0,
                 execution_time = Elapsed_ms 1200, t_score = Some (Num 7)\<rparr>]\<rparr>]
   \<and> v_passScore (hierarchy_scoring basic_inputs 10 7) = Num 8"
proof -
  let ?w = "example_world basic_env (Returned ten_results)"
  have g: "getInputs ?w = Inr basic_inputs"
    by (simp add: lazy_inputs basic_inputs_def)
  have s: "run_setup ?w (setupCommand basic_inputs) = Inr ()"
    by (simp add: run_setup_def basic_inputs_def)
  have p: "parseGradleTestResults (r_output (executeTest (test_exec ?w))) = Inr ten_tree"
    using ten_parse by (simp add: example_world_def)
  have m: "maxScore basic_inputs = Num 0"
    by (simp add: basic_inputs_def)
  have t: "js_times (of_count 10) point8 = Num 8"
    by (simp add: number_eval)
  from lazy_mode [OF g s p ten_count _ m] t
  show ?thesis
    by (simp add: result_envelope_def basic_inputs_def code_of_def of_count_def
        example_world_def js_def)
qed

text \<open>
  Claim C1 as stated fails for a negative max-score: with max-score -5 and the output
  "A PASSED" (one leaf, passed) the run reports max_score -5 and score -5 with status fail,
  not max_score 1 and score 1.
\<close>

theorem lazy_mode_negative_max_score_counterexample:
  "getInputs (example_world negative_env (Returned (js ''A PASSED''))) = Inr negative_inputs
   \<and> maxScore negative_inputs = Num (- 5)
   \<and> parseGradleTestResults
        (r_output (executeTest (test_exec (example_world negative_env (Returned (js ''A PASSED''))))))
       = Inr (JObj [(js ''A'', JBool True)])
   \<and> countPassedTests (props (JObj [(js ''A'', JBool True)])) (0, 0) = (1, 1)
   \<and> run (example_world negative_env (Returned (js ''A PASSED''))) =
       [\<lparr>version = 1, e_status = StatusFail, max_score = Some (Num (- 5)),
         tests = [\<lparr>t_name = js ''t'', t_status = StatusFail,
                   t_message = Some (js ''You need earn more score.''),
                   test_code = js ''gradle test <stdin>'', filename = [], line_no = 0,
                   execution_time = Elapsed_ms 1200, t_score = Some (Num (- 5))\<rparr>]\<rparr>]
   \<and> v_maxScore (hierarchy_scoring negative_inputs 1 1) \<noteq> of_count 1
   \<and> v_score (hierarchy_scoring negative_inputs 1 1) \<noteq> of_count 1
   \<and> v_passScore (hierarchy_scoring negative_inputs 1 1) \<noteq> js_times (of_count 1) point8"
proof -
  let ?w = "example_world negative_env (Returned (js ''A PASSED''))"
  have s: "run_setup ?w (setupCommand negative_inputs) = Inr ()"
    by (simp add: run_setup_def negative_inputs_def)
  have p: "parseGradleTestResults (r_output (executeTest (test_exec ?w)))
             = Inr (JObj [(js ''A'', JBool True)])"
    using one_parse by (simp add: example_world_def)
  have c: "countPassedTests (props (JObj [(js ''A'', JBool True)])) (0, 0) = (1, 1)"
    by simp
  have d: "js_divide (of_count 1) (of_count 1) = Num 1"
    by (simp add: number_eval)
  have t: "js_times (Num 1) (Num (- 5)) = Num (- 5)"
    by (simp add: number_eval)
  have t1: "js_times (of_count 1) point8 = Num (3602879701896397 / 4503599627370496)"
    by (simp add: number_eval)
  have h: "hierarchy_scoring negative_inputs 1 1 =
             \<lparr>v_status = StatusFail, v_message = Some (js ''You need earn more score.''),
              v_maxScore = Num (- 5), v_score = Num (- 5), v_passScore = Num (- 4)\<rparr>"
    using d t
    by (simp add: hierarchy_scoring_def initial_verdict_def negative_inputs_def
        js_strict_equals_def Let_def)
  have r: "run ?w = [result_envelope negative_inputs (elapsed_ms ?w)
                       (hierarchy_scoring negative_inputs 1 1)]"
    using run_try_scoring [OF negative_getInputs s p c] by (simp add: run_def)
  show ?thesis
    using negative_getInputs p c r h t1
    by (simp add: result_envelope_def negative_inputs_def code_of_def of_count_def
        example_world_def js_def)
qed

text \<open>
  Claim C2. For every run that reaches the scoring, whose parsed tree has at least one leaf
  and whose configured max-score is above 0, the score is (taskPassed / taskCount) * maxScore,
  the threshold is the configured pass-score when that is above 0 and maxScore * 0.8
  otherwise, and the status is fail exactly when the score is below the threshold, pass
  otherwise.
\<close>

theorem weighted_mode:
  assumes "getInputs w = Inr i"
    and "run_setup w (setupCommand i) = Inr ()"
    and "parseGradleTestResults (r_output (executeTest (test_exec w))) = Inr tree"
    and "countPassedTests (props tree) (0, 0) = (taskCount, taskPassed)"
    and "0 < taskCount"
    and "js_less (Num 0) (maxScore i)"
  shows "v_score (hierarchy_scoring i taskCount taskPassed)
           = js_times (js_divide (of_count taskPassed) (of_count taskCount)) (maxScore i)
         \<and> v_maxScore (hierarchy_scoring i taskCount taskPassed) = maxScore i
         \<and> v_passScore (hierarchy_scoring i taskCount taskPassed) = passScore i
         \<and> (\<exists>raw. getInput w (js ''pass-score'') False = Inr raw
               \<and> passScore i = (if js_less (Num 0) (parseInt_or_0 raw) then parseInt_or_0 raw
                                 else js_times (maxScore i) point8))
         \<and> v_status (hierarchy_scoring i taskCount taskPassed)
             = (if js_less (v_score (hierarchy_scoring i taskCount taskPassed))
                           (v_passScore (hierarchy_scoring i taskCount taskPassed))
                then StatusFail else StatusPass)
         \<and> run w = [result_envelope i (elapsed_ms w) (hierarchy_scoring i taskCount taskPassed)]"
proof -
  have ne: "\<not> js_strict_equals (maxScore i) (Num 0)"
    using assms(6) by (rule js_less_0_not_eq0)
  have r: "run w = [result_envelope i (elapsed_ms w) (hierarchy_scoring i taskCount taskPassed)]"
    using run_try_scoring [OF assms(1-4)] assms(5) by (simp add: run_def)
  from getInputs_Inr [OF assms(1)]
  have p: "\<exists>raw. getInput w (js ''pass-score'') False = Inr raw
               \<and> passScore i = (if js_less (Num 0) (parseInt_or_0 raw) then parseInt_or_0 raw
                                 else js_times (maxScore i) point8)"
    by auto
  show ?thesis using ne r p
    by (simp add: hierarchy_scoring_def initial_verdict_def Let_def)
qed

text \<open>
  The example of the specification: ten leaves, eight passed, max-score 50, no pass-score.
\<close>

theorem weighted_mode_witness:
  "run (example_world weighted_env (Returned eight_results)) =
     [\<lparr>version = 1, e_status = StatusPass, max_score = Some (Num 50),
       tests = [\<lparr>t_name = js ''t'', t_status = StatusPass, t_message = None,
                 test_code = js ''gradle test <stdin>'', filename = [], line_no = 0,
                 execution_time = Elapsed_ms 1200, t_score = Some (Num 40)\<rparr>]\<rparr>]
   \<and> v_passScore (hierarchy_scoring weighted_inputs 10 8) = Num 40"
proof -
  let ?w = "example_world weighted_env (Returned eight_results)"
  have s: "run_setup ?w (setupCommand weighted_inputs) = Inr ()"
    by (simp add: run_setup_def weighted_inputs_def)
  have p: "parseGradleTestResults (r_output (executeTest (test_exec ?w))) = Inr eight_tree"
    using eight_parse by (simp add: example_world_def)
  have m: "js_less (Num 0) (maxScore weighted_inputs)"
    by (simp add: weighted_inputs_def)
  have d: "js_divide (of_count 8) (of_count 10) = Num (3602879701896397 / 4503599627370496)"
    by (simp add: number_eval)
  have t: "js_times (Num (3602879701896397 / 4503599627370496)) (Num 50) = Num 40"
    by (simp add: number_eval)
  have sc: "v_score (hierarchy_scoring weighted_inputs 10 8) = Num 40"
    using weighted_mode [OF weighted_getInputs s p eight_count _ m] d t
    by (simp add: weighted_inputs_def)
  have ps: "v_passScore (hierarchy_scoring weighted_inputs 10 8) = Num 40"
    using weighted_mode [OF weighted_getInputs s p eight_count _ m]
    by (simp add: weighted_inputs_def)
  have st: "v_status (hierarchy_scoring weighted_inputs 10 8) = StatusPass"
    using weighted_mode [OF weighted_getInputs s p eight_count _ m] sc ps by simp
  have ms: "v_maxScore (hierarchy_scoring weighted_inputs 10 8) = Num 50"
    using weighted_mode [OF weighted_getInputs s p eight_count _ m]
    by (simp add: weighted_inputs_def)
  have msg: "v_message (hierarchy_scoring weighted_inputs 10 8) = None"
    using sc ps d t
    by (simp add: hierarchy_scoring_def initial_verdict_def weighted_inputs_def
        js_strict_equals_def Let_def)
  have r: "run ?w = [result_envelope weighted_inputs (elapsed_ms ?w)
                       (hierarchy_scoring weighted_inputs 10 8)]"
    using weighted_mode [OF weighted_getInputs s p eight_count _ m] by simp
  show ?thesis
    using r sc ps st ms msg
    by (simp add: result_envelope_def weighted_inputs_def code_of_def example_world_def js_def)
qed

text \<open>
  Claim C3. For every run that reaches the scoring, whose parsed tree has no leaf and
  whose test command failed (with a failure message that is not empty), the result has
  status error and score 0. The comparison is not consulted: the fallback yields this
  verdict for every configuration and every regular expression engine.
\<close>

theorem execution_error_without_leaves:
  assumes "getInputs w = Inr i"
    and "run_setup w (setupCommand i) = Inr ()"
    and "parseGradleTestResults (r_output (executeTest (test_exec w))) = Inr tree"
    and "countPassedTests (props tree) (0, 0) = (0, taskPassed)"
    and "test_exec w = Threw out m"
    and "m \<noteq> []"
  shows "run w = [result_envelope i (elapsed_ms w)
                    \<lparr>v_status = StatusError, v_message = Some (normalize_message m),
                     v_maxScore = maxScore i, v_score = Num 0, v_passScore = passScore i\<rparr>]
         \<and> (\<forall>w' i'. io_fallback w' i' (executeTest (test_exec w))
                = Inr \<lparr>v_status = StatusError, v_message = Some (normalize_message m),
                       v_maxScore = maxScore i', v_score = Num 0, v_passScore = passScore i'\<rparr>)"
proof -
  have t: "truthy_error (r_error (executeTest (test_exec w)))"
    using assms(5,6)
    by (simp add: truthy_error_def normalize_message_def timeout_message_def js_def)
  have f: "io_fallback w' i' (executeTest (test_exec w))
                = Inr \<lparr>v_status = StatusError, v_message = Some (normalize_message m),
                       v_maxScore = maxScore i', v_score = Num 0, v_passScore = passScore i'\<rparr>"
    for w' i'
    using t assms(5) by (simp add: io_fallback_def initial_verdict_def Let_def)
  have "run w = [result_envelope i (elapsed_ms w)
                    \<lparr>v_status = StatusError, v_message = Some (normalize_message m),
                     v_maxScore = maxScore i, v_score = Num 0, v_passScore = passScore i\<rparr>]"
    using run_try_scoring [OF assms(1-4)] f [of w i] by (simp add: run_def)
  with f show ?thesis by simp
qed

text \<open>
  A failed command whose captured output equals the expected output: the comparison
  would report a match, the result is the error.
\<close>

theorem execution_error_without_leaves_witness:
  "run (example_world compare_env (Threw (Some (js ''hello'')) (js ''Command failed: ./run''))) =
     [\<lparr>version = 1, e_status = StatusError, max_score = Some (Num 0),
       tests = [\<lparr>t_name = js ''t'', t_status = StatusError,
                 t_message = Some (js ''Command failed: ./run''),
                 test_code = js ''./run <stdin>'', filename = [], line_no = 0,
                 execution_time = Elapsed_ms 1200, t_score = Some (Num 0)\<rparr>]\<rparr>]
   \<and> compareOutput
         (example_world compare_env (Threw (Some (js ''hello'')) (js ''Command failed: ./run'')))
         (Some (js ''hello'')) (expectedOutput compare_inputs) (comparisonMethod compare_inputs)
       = Inr True"
proof -
  let ?w = "example_world compare_env (Threw (Some (js ''hello'')) (js ''Command failed: ./run''))"
  have s: "run_setup ?w (setupCommand compare_inputs) = Inr ()"
    by (simp add: run_setup_def compare_inputs_def)
  have p: "parseGradleTestResults (r_output (executeTest (test_exec ?w))) = Inr (JObj [])"
    using hello_parse by (simp add: example_world_def)
  have c: "countPassedTests (props (JObj [])) (0, 0) = (0, 0)"
    by simp
  have e: "test_exec ?w = Threw (Some (js ''hello'')) (js ''Command failed: ./run'')"
    by (simp add: example_world_def)
  have n: "js ''Command failed: ./run'' \<noteq> []"
    by (simp add: js_def)
  have nm: "normalize_message (js ''Command failed: ./run'') = js ''Command failed: ./run''"
    by (simp add: normalize_message_def js_def)
  have cmp: "compareOutput ?w (Some (js ''hello'')) (expectedOutput compare_inputs)
               (comparisonMethod compare_inputs) = Inr True"
    by (simp add: compareOutput_def compare_inputs_def)
  from execution_error_without_leaves [OF compare_getInputs s p c e n] nm cmp
  show ?thesis
    by (simp add: result_envelope_def compare_inputs_def code_of_def example_world_def js_def)
qed

text \<open>
  Claim C9. For every run that reaches the scoring, whose parsed tree has no leaf, whose
  test command recorded no error and whose comparison reports a match, the result has status
  pass and its score is the configured max-score, which is 0 when max-score is unset.
\<close>

theorem comparison_pass_without_leaves:
  assumes "getInputs w = Inr i"
    and "run_setup w (setupCommand i) = Inr ()"
    and "parseGradleTestResults (r_output (executeTest (test_exec w))) = Inr tree"
    and "countPassedTests (props tree) (0, 0) = (0, taskPassed)"
    and "\<not> truthy_error (r_error (executeTest (test_exec w)))"
    and "compareOutput w (r_output (executeTest (test_exec w))) (expectedOutput i)
           (comparisonMethod i) = Inr True"
  shows "run w = [result_envelope i (elapsed_ms w)
                    \<lparr>v_status = StatusPass, v_message = None,
                     v_maxScore = maxScore i, v_score = maxScore i, v_passScore = passScore i\<rparr>]
         \<and> (\<exists>raw. getInput w (js ''max-score'') False = Inr raw \<and> maxScore i = parseInt_or_0 raw)
         \<and> parseInt_or_0 [] = Num 0"
proof -
  have a: "run w = [result_envelope i (elapsed_ms w)
                    \<lparr>v_status = StatusPass, v_message = None,
                     v_maxScore = maxScore i, v_score = maxScore i, v_passScore = passScore i\<rparr>]"
    using run_try_scoring [OF assms(1-4)] assms(5,6)
    by (simp add: run_def io_fallback_def initial_verdict_def Let_def)
  from getInputs_Inr [OF assms(1)]
  have b: "\<exists>raw. getInput w (js ''max-score'') False = Inr raw \<and> maxScore i = parseInt_or_0 raw"
    by auto
  show ?thesis using a b by (simp add: parseInt_or_0_def)
qed

theorem comparison_pass_without_leaves_witness:
  "run (example_world compare_env (Returned (js ''hello''))) =
     [\<lparr>version = 1, e_status = StatusPass, max_score = Some (Num 0),
       tests = [\<lparr>t_name = js ''t'', t_status = StatusPass, t_message = None,
                 test_code = js ''./run <stdin>'', filename = [], line_no = 0,
                 execution_time = Elapsed_ms 1200, t_score = Some (Num 0)\<rparr>]\<rparr>]"
proof -
  let ?w = "example_world compare_env (Returned (js ''hello''))"
  have s: "run_setup ?w (setupCommand compare_inputs) = Inr ()"
    by (simp add: run_setup_def compare_inputs_def)
  have p: "parseGradleTestResults (r_output (executeTest (test_exec ?w))) = Inr (JObj [])"
    using hello_parse by (simp add: example_world_def)
  have c: "countPassedTests (props (JObj [])) (0, 0) = (0, 0)"
    by simp
  have e: "\<not> truthy_error (r_error (executeTest (test_exec ?w)))"
    by (simp add: example_world_def truthy_error_def)
  have t: "trim (js ''hello'') = js ''hello''"
    by (simp add: string_eval)
  have cmp: "compareOutput ?w (r_output (executeTest (test_exec ?w)))
               (expectedOutput compare_inputs) (comparisonMethod compare_inputs) = Inr True"
    using t by (simp add: compareOutput_def compare_inputs_def example_world_def)
  from comparison_pass_without_leaves [OF compare_getInputs s p c e cmp]
  show ?thesis
    by (simp add: result_envelope_def compare_inputs_def code_of_def example_world_def js_def)
qed

section \<open>Properties of the orchestrator\<close>

lemma js_append_nonempty [simp]: "js (c # s) @ t \<noteq> []"
  by (simp add: js_def)

lemma cannot_messages [simp]:
  "message (cannot_read p) \<noteq> []"
  "message (cannot_set p) \<noteq> []"
  "message (invalid_method m) \<noteq> []"
  by (simp_all add: cannot_read_def cannot_set_def invalid_method_def js_def)

lemma walk_error_message: "walk cur h b = Inl e \<Longrightarrow> message e \<noteq> []"
proof (induction cur h b arbitrary: e rule: walk.induct)
  case (1 cur isPassed)
  then show ?case by simp
next
  case (2 cur level isPassed)
  then show ?case by (auto split: option.splits jsval.splits)
next
  case (3 cur level v va isPassed)
  show ?case
  proof (cases cur)
    case None
    with 3(3) show ?thesis by auto
  next
    case (Some x)
    show ?thesis
    proof (cases x)
      case (JBool b)
      with Some 3(3) have "walk None (v # va) isPassed = Inl e"
        by (auto split: sum.splits)
      with 3(1) [OF Some JBool] show ?thesis by simp
    next
      case (JObj kvs)
      define kvs' where "kvs' = (if truthy (map_of kvs level) then kvs
                                  else AList.update level (JObj []) kvs)"
      from Some JObj 3(3) have "walk (map_of kvs' level) (v # va) isPassed = Inl e"
        by (auto simp: kvs'_def Let_def split: sum.splits option.splits)
      with 3(2) [OF Some JObj kvs'_def] show ?thesis by simp
    qed
  qed
qed

lemma parse_line_error_message: "parse_line t l = Inl e \<Longrightarrow> message e \<noteq> []"
  by (auto simp: parse_line_def split: option.splits sum.splits prod.splits
      dest: walk_error_message)

lemma parse_lines_error_message: "parse_lines t ls = Inl e \<Longrightarrow> message e \<noteq> []"
  by (induction ls arbitrary: t) (auto split: sum.splits dest: parse_line_error_message)

lemma parse_error_message: "parseGradleTestResults out = Inl e \<Longrightarrow> message e \<noteq> []"
  by (auto simp: parseGradleTestResults_def split: option.splits dest: parse_lines_error_message)

lemma getInputs_error_message:
  "loud_world w \<Longrightarrow> getInputs w = Inl e \<Longrightarrow> message e \<noteq> []"
  unfolding getInputs_def loud_world_def
  by (auto simp: try_then_eq_Inl Let_def split: if_splits)

lemma getInputs_main_error_message:
  "loud_world w \<Longrightarrow> getInputs_main w = Inl e \<Longrightarrow> message e \<noteq> []"
  unfolding getInputs_main_def loud_world_def
  by (auto simp: try_then_eq_Inl Let_def js_def split: if_splits)

lemma run_setup_error_message:
  "loud_world w \<Longrightarrow> run_setup w c = Inl e \<Longrightarrow> message e \<noteq> []"
  by (auto simp: run_setup_def loud_world_def split: if_splits exec_outcome.splits)

lemma compareOutput_error_message:
  "loud_world w \<Longrightarrow> compareOutput w out ex m = Inl e \<Longrightarrow> message e \<noteq> []"
  by (auto simp: compareOutput_def loud_world_def try_then_eq_Inl split: if_splits option.splits)

lemma io_fallback_error_message:
  "loud_world w \<Longrightarrow> io_fallback w i r = Inl e \<Longrightarrow> message e \<noteq> []"
  by (auto simp: io_fallback_def Let_def try_then_eq_Inl split: if_splits
      dest: compareOutput_error_message)

lemma run_try_error_message:
  assumes "loud_world w" and "run_try w = Inl e"
  shows "message e \<noteq> []"
proof (cases "getInputs w")
  case (Inl e')
  with assms(2) have "e' = e" by (simp add: run_try_def)
  with Inl getInputs_error_message [OF assms(1)] show ?thesis by simp
next
  case i: (Inr i)
  show ?thesis
  proof (cases "run_setup w (setupCommand i)")
    case (Inl e')
    with i assms(2) have "e' = e" by (simp add: run_try_def)
    with Inl run_setup_error_message [OF assms(1)] show ?thesis by simp
  next
    case s: (Inr u)
    show ?thesis
    proof (cases "parseGradleTestResults (r_output (executeTest (test_exec w)))")
      case (Inl e')
      with i s assms(2) have "e' = e" by (simp add: run_try_def Let_def)
      with Inl parse_error_message show ?thesis by simp
    next
      case p: (Inr tree)
      obtain c q where c: "countPassedTests (props tree) (0, 0) = (c, q)"
        by (cases "countPassedTests (props tree) (0, 0)") auto
      from s have s': "run_setup w (setupCommand i) = Inr ()" by simp
      from run_try_scoring [OF i s' p c] assms(2)
      have "try_then (if 0 < c then Inr (hierarchy_scoring i c q)
                      else io_fallback w i (executeTest (test_exec w)))
              (\<lambda>v. Inr (result_envelope i (elapsed_ms w) v)) = Inl e"
        by simp
      then have "io_fallback w i (executeTest (test_exec w)) = Inl e"
        by (auto simp: try_then_eq_Inl split: if_splits)
      with io_fallback_error_message [OF assms(1)] show ?thesis by simp
    qed
  qed
qed

lemma run_try_main_error_message:
  assumes "loud_world w" and "run_try_main w = Inl e"
  shows "message e \<noteq> []"
  using assms(2) unfolding run_try_main_def
  by (auto simp: try_then_eq_Inl Let_def split: if_splits
      dest: getInputs_main_error_message [OF assms(1)] run_setup_error_message [OF assms(1)]
        parse_error_message compareOutput_error_message [OF assms(1)])

lemma catch_envelope_shape:
  "\<exists>t. catch_envelope i e =
         \<lparr>version = 1, e_status = StatusError, max_score = None, tests = [t]\<rparr>
       \<and> t_status t = StatusError \<and> t_message t = Some (message e) \<and> t_name t \<noteq> []
       \<and> execution_time t = Zero_time \<and> t_score t = None
       \<and> (i = None \<longrightarrow> t_name t = js ''Unknown Test''
                        \<and> test_code t = js ''Unknown Command <stdin>'')"
  by (cases i) (auto simp: catch_envelope_def or_else_def code_of_def js_def)

lemma example_world_loud: "loud_world (example_world env t)"
  by (auto simp: loud_world_def example_world_def core_getInput_def js_def Let_def
      split: if_splits)

lemma included_getInputs:
  "getInputs (example_world included_env t)
     = Inl (JsError (js ''Invalid comparison method: included''))"
  by (simp add: config_eval included_env_def invalid_method_def string_eval number_eval)

text \<open>
  Claim C8. Every run emits exactly one result. When any step of the try block throws (the
  reading or validation of the configuration, the setup command, the parser, the
  comparator), the result is the error envelope: status error for the envelope and for its
  single report, the message of the exception, which is not empty, no score, and the
  placeholder name and command when the configuration was not read. The exceptions of the
  external primitives are taken to carry a message (\<open>loud_world\<close>). This holds for the
  grader script and for \<^verbatim>\<open>src/main.js\<close>, whose catch blocks are the same.
\<close>

theorem run_catches_every_exception:
  assumes "loud_world w"
  shows "(\<exists>res. run w = [res]) \<and> (\<exists>res. run_main w = [res])
     \<and> (\<forall>e. run_try w = Inl e \<longrightarrow>
           message e \<noteq> []
           \<and> (\<exists>t. run w = [\<lparr>version = 1, e_status = StatusError, max_score = None, tests = [t]\<rparr>]
                \<and> t_status t = StatusError \<and> t_message t = Some (message e) \<and> t_name t \<noteq> []
                \<and> execution_time t = Zero_time \<and> t_score t = None
                \<and> (getInputs w = Inl e \<longrightarrow> t_name t = js ''Unknown Test''
                       \<and> test_code t = js ''Unknown Command <stdin>'')))
     \<and> (\<forall>e. run_try_main w = Inl e \<longrightarrow>
           message e \<noteq> []
           \<and> (\<exists>t. run_main w = [\<lparr>version = 1, e_status = StatusError, max_score = None, tests = [t]\<rparr>]
                \<and> t_status t = StatusError \<and> t_message t = Some (message e) \<and> t_name t \<noteq> []
                \<and> execution_time t = Zero_time \<and> t_score t = None
                \<and> (getInputs_main w = Inl e \<longrightarrow> t_name t = js ''Unknown Test''
                       \<and> test_code t = js ''Unknown Command <stdin>'')))"
proof -
  have one: "\<exists>res. run w = [res]"
    by (cases "run_try w") (simp_all add: run_def)
  have one_main: "\<exists>res. run_main w = [res]"
    by (cases "run_try_main w") (simp_all add: run_main_def)
  have c: "message e \<noteq> []
           \<and> (\<exists>t. run w = [\<lparr>version = 1, e_status = StatusError, max_score = None, tests = [t]\<rparr>]
                \<and> t_status t = StatusError \<and> t_message t = Some (message e) \<and> t_name t \<noteq> []
                \<and> execution_time t = Zero_time \<and> t_score t = None
                \<and> (getInputs w = Inl e \<longrightarrow> t_name t = js ''Unknown Test''
                       \<and> test_code t = js ''Unknown Command <stdin>''))"
    if e: "run_try w = Inl e" for e
  proof -
    let ?i = "case getInputs w of Inl e' \<Rightarrow> None | Inr i \<Rightarrow> Some i"
    have r: "run w = [catch_envelope ?i e]"
      using e by (simp add: run_def)
    have n: "getInputs w = Inl e \<longrightarrow> ?i = None"
      by simp
    from catch_envelope_shape [of ?i e] r n run_try_error_message [OF assms e]
    show ?thesis by auto
  qed
  have d: "message e \<noteq> []
           \<and> (\<exists>t. run_main w = [\<lparr>version = 1, e_status = StatusError, max_score = None, tests = [t]\<rparr>]
                \<and> t_status t = StatusError \<and> t_message t = Some (message e) \<and> t_name t \<noteq> []
                \<and> execution_time t = Zero_time \<and> t_score t = None
                \<and> (getInputs_main w = Inl e \<longrightarrow> t_name t = js ''Unknown Test''
                       \<and> test_code t = js ''Unknown Command <stdin>''))"
    if e: "run_try_main w = Inl e" for e
  proof -
    let ?i = "case getInputs_main w of Inl e' \<Rightarrow> None | Inr i \<Rightarrow> Some i"
    have r: "run_main w = [catch_envelope ?i e]"
      using e by (simp add: run_main_def)
    have n: "getInputs_main w = Inl e \<longrightarrow> ?i = None"
      by simp
    from catch_envelope_shape [of ?i e] r n run_try_main_error_message [OF assms e]
    show ?thesis by auto
  qed
  from one one_main c d show ?thesis by blast
qed

text \<open>
  A configuration with the comparison method "included", which the validation refuses.
\<close>

theorem run_catches_every_exception_witness:
  "loud_world (example_world included_env (Returned (js ''hello'')))
   \<and> run (example_world included_env (Returned (js ''hello''))) =
       [\<lparr>version = 1, e_status = StatusError, max_score = None,
         tests = [\<lparr>t_name = js ''Unknown Test'', t_status = StatusError,
                   t_message = Some (js ''Invalid comparison method: included''),
                   test_code = js ''Unknown Command <stdin>'', filename = [], line_no = 0,
                   execution_time = Zero_time, t_score = None\<rparr>]\<rparr>]"
proof -
  let ?w = "example_world included_env (Returned (js ''hello''))"
  let ?e = "JsError (js ''Invalid comparison method: included'')"
  have e: "run_try ?w = Inl ?e"
    by (simp add: run_try_def included_getInputs)
  from run_catches_every_exception [OF example_world_loud, of included_env "Returned (js ''hello'')"]
    e included_getInputs [of "Returned (js ''hello'')"]
  obtain t where t: "run ?w = [\<lparr>version = 1, e_status = StatusError, max_score = None, tests = [t]\<rparr>]"
    "t_status t = StatusError" "t_message t = Some (message ?e)"
    "execution_time t = Zero_time" "t_score t = None"
    "t_name t = js ''Unknown Test''" "test_code t = js ''Unknown Command <stdin>''"
    by auto
  have f: "run ?w = [catch_envelope (None :: inputs option) ?e]"
    using e included_getInputs [of "Returned (js ''hello'')"] by (simp add: run_def)
  with t(1) have "filename t = [] \<and> line_no t = 0"
    by (auto simp: catch_envelope_def)
  with t have "t = \<lparr>t_name = js ''Unknown Test'', t_status = StatusError,
                   t_message = Some (js ''Invalid comparison method: included''),
                   test_code = js ''Unknown Command <stdin>'', filename = [], line_no = 0,
                   execution_time = Zero_time, t_score = None\<rparr>"
    by (cases t) simp
  with t(1) example_world_loud show ?thesis by simp
qed

section \<open>Properties of the orchestrator of \<^verbatim>\<open>src/main.js\<close>\<close>

lemma countPassedTests_main_id: "countPassedTests_main kvs st = st"
  by (induction kvs st rule: countPassedTests_main.induct) (simp_all add: typeof_key_def)

lemma run_try_main_compared:
  assumes "getInputs_main w = Inr i"
    and "run_setup w (setupCommand i) = Inr ()"
    and "\<not> truthy_error (r_error (executeTest_main (test_exec w)))"
    and "compareOutput w (r_output (executeTest_main (test_exec w))) (expectedOutput i)
           (comparisonMethod i) = Inr same"
  shows "run_try_main w =
     try_then
       (if \<not> same
        then Inr ((initial_verdict_main i)
                   \<lparr>v_status := StatusFail,
                    v_message := Some (mismatch_message (expectedOutput i)
                                        (r_output (executeTest_main (test_exec w)))),
                    v_score := Num 0\<rparr>)
        else try_then (parseGradleTestResults (r_output (executeTest_main (test_exec w))))
               (\<lambda>parsedResults. Inr (score_main i parsedResults)))
       (\<lambda>v. Inr (result_envelope i (elapsed_ms w) v))"
  using assms by (simp add: run_try_main_def Let_def)

lemma score_main_value:
  "score_main i tree =
     \<lparr>v_status = StatusPass, v_message = None, v_maxScore = maxScore i,
      v_score = (if js_strict_equals (maxScore i) (Num 0) then Num 0 else NaN)\<rparr>"
  by (simp add: score_main_def initial_verdict_main_def countPassedTests_main_id
      js_strict_equals_def of_count_def inf_of_sign_def Let_def)

lemma main_getInputs: "getInputs_main (example_world main_env t) = Inr main_inputs"
  by (simp add: getInputs_main_def config_eval main_env_def main_inputs_def string_eval number_eval)

text \<open>
  Claim C10. In \<^verbatim>\<open>src/main.js\<close> the traversal leaves the two counters as they are, for
  every tree: it switches on the type of the key, which is a string. So taskCount and
  taskPassed are 0, no score is derived from the leaves, and a run without an execution
  error is decided by the comparison alone: pass when the outputs agree, fail when they do
  not, whatever the parsed tree holds. (The score of a passing run is then 0 when max-score
  is 0, and 0 / 0 otherwise.)
\<close>

theorem main_js_counts_no_leaf:
  assumes "getInputs_main w = Inr i"
    and "run_setup w (setupCommand i) = Inr ()"
    and "\<not> truthy_error (r_error (executeTest_main (test_exec w)))"
    and "compareOutput w (r_output (executeTest_main (test_exec w))) (expectedOutput i)
           (comparisonMethod i) = Inr same"
    and "same \<longrightarrow> parseGradleTestResults (r_output (executeTest_main (test_exec w))) = Inr tree"
  shows "(\<forall>kvs st. countPassedTests_main kvs st = st)
         \<and> countPassedTests_main (props tree) (0, 0) = (0, 0)
         \<and> run_main w =
             [result_envelope i (elapsed_ms w)
                \<lparr>v_status = (if same then StatusPass else StatusFail),
                 v_message = (if same then None
                              else Some (mismatch_message (expectedOutput i)
                                           (r_output (executeTest_main (test_exec w))))),
                 v_maxScore = maxScore i,
                 v_score = (if same
                            then (if js_strict_equals (maxScore i) (Num 0) then Num 0 else NaN)
                            else Num 0)\<rparr>]"
proof (cases same)
  case True
  with assms(5) have p: "parseGradleTestResults (r_output (executeTest_main (test_exec w))) = Inr tree"
    by simp
  show ?thesis
    using run_try_main_compared [OF assms(1-4)] True p
    by (simp add: run_main_def score_main_value countPassedTests_main_id)
next
  case False
  show ?thesis
    using run_try_main_compared [OF assms(1-4)] False
    by (simp add: run_main_def initial_verdict_main_def countPassedTests_main_id)
qed

text \<open>
  An output with one passed leaf that equals the expected output, with max-score 50.
\<close>

theorem main_js_counts_no_leaf_witness:
  "countPassedTests_main (props (JObj [(js ''A'', JBool True)])) (0, 0) = (0, 0)
   \<and> countPassedTests (props (JObj [(js ''A'', JBool True)])) (0, 0) = (1, 1)
   \<and> run_main (example_world main_env (Returned (js ''A PASSED''))) =
       [\<lparr>version = 1, e_status = StatusPass, max_score = Some (Num 50),
         tests = [\<lparr>t_name = js ''t'', t_status = StatusPass, t_message = None,
                   test_code = js ''gradle test <stdin>'', filename = [], line_no = 0,
                   execution_time = Elapsed_ms 1200, t_score = Some NaN\<rparr>]\<rparr>]"
proof -
  let ?w = "example_world main_env (Returned (js ''A PASSED''))"
  have s: "run_setup ?w (setupCommand main_inputs) = Inr ()"
    by (simp add: run_setup_def main_inputs_def)
  have e: "\<not> truthy_error (r_error (executeTest_main (test_exec ?w)))"
    by (simp add: example_world_def truthy_error_def)
  have t: "trim (js ''A PASSED'') = js ''A PASSED''"
    by (simp add: string_eval)
  have cmp: "compareOutput ?w (r_output (executeTest_main (test_exec ?w)))
               (expectedOutput main_inputs) (comparisonMethod main_inputs) = Inr True"
    using t by (simp add: compareOutput_def main_inputs_def example_world_def)
  have p: "True \<longrightarrow> parseGradleTestResults (r_output (executeTest_main (test_exec ?w)))
             = Inr (JObj [(js ''A'', JBool True)])"
    using one_parse by (simp add: example_world_def)
  from main_js_counts_no_leaf [OF main_getInputs s e cmp p]
  show ?thesis
    by (simp add: result_envelope_def main_inputs_def code_of_def example_world_def js_def
        js_strict_equals_def)
qed

end
